theory Spec2Isabelle
  imports Main "HOL-Library.Log_Nat" "HOL-Library.Char_ord" "HOL-Library.List_Lexorder"
begin

section \<open>Python strings\<close>

text \<open>
  A Python \<open>str\<close> is modelled as a \<open>string\<close> in which every \<open>char\<close> stands for one
  code point below 256 (Latin-1), so that \<open>length\<close> is Python's \<open>len\<close> and \<open>take n\<close> is
  the slice \<open>s[:n]\<close>.  \<open>str.isspace\<close>, \<open>str.strip\<close> and \<open>str.lower\<close> are written out
  for that range.
\<close>

definition py_isspace :: "char \<Rightarrow> bool" where
  "py_isspace c =
     (let n = (of_char c :: nat)
      in (9 \<le> n \<and> n \<le> 13) \<or> (28 \<le> n \<and> n \<le> 32) \<or> n = 133 \<or> n = 160)"

definition py_strip :: "string \<Rightarrow> string" where
  "py_strip s = rev (dropWhile py_isspace (rev (dropWhile py_isspace s)))"

definition py_isupper :: "char \<Rightarrow> bool" where
  "py_isupper c =
     (let n = (of_char c :: nat)
      in (65 \<le> n \<and> n \<le> 90) \<or> (192 \<le> n \<and> n \<le> 222 \<and> n \<noteq> 215))"

text \<open>An upper-case letter of this range becomes lower case by setting bit 5 (adding 32).\<close>

definition py_lower_char :: "char \<Rightarrow> char" where
  "py_lower_char c =
     (if py_isupper c
      then (case c of Char b0 b1 b2 b3 b4 b5 b6 b7 \<Rightarrow> Char b0 b1 b2 b3 b4 True b6 b7)
      else c)"

definition py_lower :: "string \<Rightarrow> string" where
  "py_lower s = map py_lower_char s"

text \<open>\<open>str(n)\<close> for a non-negative integer, as an f-string prints \<open>len(xs)\<close>.\<close>

definition digit_char :: "nat \<Rightarrow> char" where
  "digit_char d =
     (if d = 0 then CHR ''0'' else if d = 1 then CHR ''1'' else if d = 2 then CHR ''2''
      else if d = 3 then CHR ''3'' else if d = 4 then CHR ''4'' else if d = 5 then CHR ''5''
      else if d = 6 then CHR ''6'' else if d = 7 then CHR ''7'' else if d = 8 then CHR ''8''
      else CHR ''9'')"

fun str_nat :: "nat \<Rightarrow> string" where
  "str_nat n = (if n < 10 then [digit_char n] else str_nat (n div 10) @ [digit_char (n mod 10)])"

declare str_nat.simps [simp del]

text \<open>\<open>sep.join(xs)\<close>.\<close>

fun join :: "string \<Rightarrow> string list \<Rightarrow> string" where
  "join sep [] = []"
| "join sep [x] = x"
| "join sep (x # y # ys) = x @ sep @ join sep (y # ys)"

text \<open>\<open>a or b\<close> on strings: the first operand when it is non-empty.\<close>

definition str_or :: "string \<Rightarrow> string \<Rightarrow> string" where
  "str_or a b = (if a \<noteq> [] then a else b)"

text \<open>\<open>needle in haystack\<close> on strings.\<close>

fun str_contains :: "string \<Rightarrow> string \<Rightarrow> bool" where
  "str_contains needle [] = (needle = [])"
| "str_contains needle (c # cs) =
     (take (length needle) (c # cs) = needle \<or> str_contains needle cs)"

section \<open>models.py\<close>

datatype SeverityLevel = PASS | WARNING | FAIL

text \<open>\<open>SeverityLevel.value\<close>, the string the engine compares.\<close>

fun severity_value :: "SeverityLevel \<Rightarrow> string" where
  "severity_value PASS = ''pass''"
| "severity_value WARNING = ''warning''"
| "severity_value FAIL = ''fail''"

datatype ScanStatus = PENDING | SCANNING | COMPLETE | FAILED

datatype WCAGLevel = A | AA | AAA

record Finding =
  rule_code :: string
  severity :: SeverityLevel
  message :: string
  element :: "string option"
  wcag_reference :: string
  wcag_level :: WCAGLevel
  principle :: string
  remediation :: string
  count :: int

section \<open>The parsed document (scanner/parser.py over BeautifulSoup)\<close>

text \<open>
  The tree BeautifulSoup builds: a \<open>Tag\<close> has a name, an attribute dictionary (here an
  association list read with \<open>map_of\<close>; every attribute the rules read is single-valued,
  a string) and its children in document order; a \<open>NavigableString\<close> is a text node;
  \<open>Comment\<close> stands for the special strings (comments, doctype, processing instructions)
  that \<open>get_text\<close> skips.  The \<open>BeautifulSoup\<close> object itself is a \<open>Tag\<close> named
  \<open>[document]\<close> whose children are the top-level nodes.
\<close>

datatype node =
    Tag (name: string) (attrs: "(string \<times> string) list") (contents: "node list")
  | NavigableString string
  | Comment string

record ParsedHTML =
  soup :: node
  raw_html :: string

definition is_tag :: "node \<Rightarrow> bool" where
  "is_tag n = (case n of Tag _ _ _ \<Rightarrow> True | _ \<Rightarrow> False)"

text \<open>\<open>tag.get(key)\<close>: \<open>None\<close> when the attribute is absent.\<close>

definition get :: "node \<Rightarrow> string \<Rightarrow> string option" where
  "get n key = (case n of Tag _ as _ \<Rightarrow> map_of as key | _ \<Rightarrow> None)"

text \<open>\<open>tag.get(key, default)\<close>.\<close>

definition get_default :: "node \<Rightarrow> string \<Rightarrow> string \<Rightarrow> string" where
  "get_default n key d = (case get n key of None \<Rightarrow> d | Some v \<Rightarrow> v)"

text \<open>Truthiness of \<open>tag.get(key)\<close>: present and non-empty.\<close>

definition get_truthy :: "node \<Rightarrow> string \<Rightarrow> bool" where
  "get_truthy n key = (case get n key of None \<Rightarrow> False | Some v \<Rightarrow> v \<noteq> [])"

text \<open>
  The descendants of a node in document order, each paired with its parent
  (\<open>element.parent\<close>).
\<close>

fun descendants_of :: "node \<Rightarrow> (node \<times> node) list"
  and descendants_in :: "node \<Rightarrow> node list \<Rightarrow> (node \<times> node) list" where
  "descendants_of (Tag nm as cs) = descendants_in (Tag nm as cs) cs"
| "descendants_of (NavigableString s) = []"
| "descendants_of (Comment s) = []"
| "descendants_in p [] = []"
| "descendants_in p (c # cs) = (p, c) # descendants_of c @ descendants_in p cs"

definition descendants :: "node \<Rightarrow> node list" where
  "descendants n = map snd (descendants_of n)"

text \<open>\<open>tag.get_text()\<close>: the text nodes below the tag, concatenated.\<close>

definition get_text :: "node \<Rightarrow> string" where
  "get_text n = concat (map (\<lambda>d. case d of NavigableString s \<Rightarrow> s | _ \<Rightarrow> []) (descendants n))"

text \<open>\<open>find_all(names)\<close>: the tags below a node whose name is one of \<open>names\<close>.\<close>

definition find_all :: "node \<Rightarrow> string list \<Rightarrow> node list" where
  "find_all n names = filter (\<lambda>d. is_tag d \<and> name d \<in> set names) (descendants n)"

text \<open>\<open>find_all(attrs={key: True})\<close>: the tags below a node that carry the attribute.\<close>

definition find_all_with_attr :: "node \<Rightarrow> string \<Rightarrow> node list" where
  "find_all_with_attr n key = filter (\<lambda>d. is_tag d \<and> get d key \<noteq> None) (descendants n)"

text \<open>\<open>find_all(nm, key=value)\<close>: name and attribute value both match.\<close>

definition find_all_attr_eq :: "node \<Rightarrow> string \<Rightarrow> string \<Rightarrow> string \<Rightarrow> node list" where
  "find_all_attr_eq n nm key v =
     filter (\<lambda>d. is_tag d \<and> name d = nm \<and> get d key = Some v) (descendants n)"

text \<open>\<open>find\<close>: the first match of \<open>find_all\<close>, or \<open>None\<close>.\<close>

definition find_first :: "node list \<Rightarrow> node option" where
  "find_first ns = (case ns of [] \<Rightarrow> None | x # _ \<Rightarrow> Some x)"

definition html_tag :: "ParsedHTML \<Rightarrow> node option" where
  "html_tag p = find_first (find_all (soup p) [''html''])"

definition title :: "ParsedHTML \<Rightarrow> string option" where
  "title p = (case find_first (find_all (soup p) [''title'']) of
                None \<Rightarrow> None | Some t \<Rightarrow> Some (py_strip (get_text t)))"

definition images :: "ParsedHTML \<Rightarrow> node list" where
  "images p = find_all (soup p) [''img'']"

definition links :: "ParsedHTML \<Rightarrow> node list" where
  "links p = find_all (soup p) [''a'']"

text \<open>The inputs with their parents: \<open>FormLabelRule\<close> reads \<open>input_elem.parent\<close>.\<close>

definition inputs_with_parent :: "ParsedHTML \<Rightarrow> (node \<times> node) list" where
  "inputs_with_parent p =
     filter (\<lambda>(par, d). is_tag d \<and> name d \<in> set [''input'', ''textarea'', ''select''])
       (descendants_of (soup p))"

definition inputs :: "ParsedHTML \<Rightarrow> node list" where
  "inputs p = map snd (inputs_with_parent p)"

definition headings :: "ParsedHTML \<Rightarrow> node list" where
  "headings p = find_all (soup p) [''h1'', ''h2'', ''h3'', ''h4'', ''h5'', ''h6'']"

definition buttons :: "ParsedHTML \<Rightarrow> node list" where
  "buttons p = find_all (soup p) [''button''] @ find_all_attr_eq (soup p) ''input'' ''type'' ''button''"

definition get_all_ids :: "ParsedHTML \<Rightarrow> string list" where
  "get_all_ids p = map (\<lambda>e. get_default e ''id'' []) (find_all_with_attr (soup p) ''id'')"

section \<open>scanner/rules/base.py\<close>

record rule_meta =
  meta_rule_code :: string
  meta_wcag_reference :: string
  meta_wcag_level :: WCAGLevel
  meta_principle :: string

definition create_finding ::
  "rule_meta \<Rightarrow> SeverityLevel \<Rightarrow> string \<Rightarrow> string \<Rightarrow> string option \<Rightarrow> int \<Rightarrow> Finding" where
  "create_finding self sev msg rem el cnt =
     \<lparr> rule_code = meta_rule_code self, severity = sev, message = msg, element = el,
       wcag_reference = meta_wcag_reference self, wcag_level = meta_wcag_level self,
       principle = meta_principle self, remediation = rem, count = cnt \<rparr>"

text \<open>
  What the rules take from outside the repository: \<open>str(tag)\<close>, BeautifulSoup's
  serialisation of an element (the rules only slice it), and the order in which Python
  iterates over a set of strings (it depends on the process's string hashing).
\<close>

record py_env =
  str_of :: "node \<Rightarrow> string"
  list_of_set :: "string set \<Rightarrow> string list"

text \<open>
  The exceptions that occur, each with its message: \<open>ValueError\<close> and \<open>IndexError\<close> of
  Python, the \<open>IntegrityError\<close> the database raises when a unique column would repeat,
  and \<open>OtherError\<close> for any other exception that passes through unchanged.
\<close>

datatype py_exception =
    ValueError string
  | IndexError string
  | IntegrityError string
  | OtherError string

text \<open>\<open>str(e)\<close>.\<close>

fun str_exception :: "py_exception \<Rightarrow> string" where
  "str_exception (ValueError m) = m"
| "str_exception (IndexError m) = m"
| "str_exception (IntegrityError m) = m"
| "str_exception (OtherError m) = m"

type_synonym rule = "py_env \<Rightarrow> ParsedHTML \<Rightarrow> py_exception + Finding list"

text \<open>
  A rule's \<open>check\<close> returns its findings (\<open>Inr\<close>), or the exception it raises (\<open>Inl\<close>).
  \<open>element[0] if element else None\<close> is \<open>first_or_none\<close>; \<open>quoted s\<close> is \<open>'{s}'\<close> in an
  f-string.
\<close>

definition first_or_none :: "string list \<Rightarrow> string option" where
  "first_or_none xs = (case xs of [] \<Rightarrow> None | x # _ \<Rightarrow> Some x)"

definition squote :: string where
  "squote = [CHR 0x27]"

definition quoted :: "string \<Rightarrow> string" where
  "quoted s = squote @ s @ squote"

definition str_int :: "int \<Rightarrow> string" where
  "str_int i = (if i < 0 then ''-'' @ str_nat (nat (- i)) else str_nat (nat i))"

section \<open>scanner/rules/perceivable.py\<close>

definition ImageAltTextRule :: rule_meta where
  "ImageAltTextRule =
     \<lparr> meta_rule_code = ''IMG_ALT_MISSING'', meta_wcag_reference = ''1.1.1'',
       meta_wcag_level = AA, meta_principle = ''Perceivable'' \<rparr>"

definition ImageAltTextRule_check :: "py_env \<Rightarrow> ParsedHTML \<Rightarrow> Finding list" where
  "ImageAltTextRule_check env p =
     (let missing_alt = map (\<lambda>img. take 100 (str_of env img))
                          (filter (\<lambda>img. get img ''alt'' = None) (images p))
      in if missing_alt \<noteq> []
         then [create_finding ImageAltTextRule FAIL
                 (str_nat (length missing_alt) @ '' images missing alt attribute'')
                 (''Add descriptive alt text to all images. Use alt='' @ squote @ squote
                    @ '' for decorative images.'')
                 (first_or_none missing_alt) (int (length missing_alt))]
         else [create_finding ImageAltTextRule PASS
                 ''All images have alt attributes'' ''N/A - Check passed'' None 1])"

definition HTMLLangAttributeRule :: rule_meta where
  "HTMLLangAttributeRule =
     \<lparr> meta_rule_code = ''HTML_LANG_MISSING'', meta_wcag_reference = ''3.1.1'',
       meta_wcag_level = AA, meta_principle = ''Understandable'' \<rparr>"

definition HTMLLangAttributeRule_check :: "py_env \<Rightarrow> ParsedHTML \<Rightarrow> Finding list" where
  "HTMLLangAttributeRule_check env p =
     (case html_tag p of
        None \<Rightarrow>
          [create_finding HTMLLangAttributeRule FAIL ''No <html> tag found''
             ''Ensure document has a valid <html> tag with lang attribute'' None 1]
      | Some h \<Rightarrow>
          (if \<not> get_truthy h ''lang''
           then [create_finding HTMLLangAttributeRule FAIL ''<html> tag missing lang attribute''
                   (''Add lang attribute to <html> tag (e.g., <html lang='' @ squote @ ''en'' @ squote @ ''>)'')
                   (Some (take 100 (str_of env h))) 1]
           else [create_finding HTMLLangAttributeRule PASS
                   (''Page language is set to '' @ quoted (get_default h ''lang'' []))
                   ''N/A - Check passed'' None 1]))"

definition PageTitleRule :: rule_meta where
  "PageTitleRule =
     \<lparr> meta_rule_code = ''PAGE_TITLE_MISSING'', meta_wcag_reference = ''2.4.2'',
       meta_wcag_level = AA, meta_principle = ''Operable'' \<rparr>"

text \<open>\<open>not title\<close> holds for \<open>None\<close> and for the empty string.\<close>

definition PageTitleRule_check :: "py_env \<Rightarrow> ParsedHTML \<Rightarrow> Finding list" where
  "PageTitleRule_check env p =
     (let t = (case title p of None \<Rightarrow> [] | Some s \<Rightarrow> s)
      in if title p = None \<or> t = []
         then [create_finding PageTitleRule FAIL ''Page has no <title> element''
                 ''Add a descriptive <title> element in the <head> section'' None 1]
         else if length (py_strip t) = 0
         then [create_finding PageTitleRule FAIL ''Page title is empty''
                 ''Provide a descriptive, meaningful page title''
                 (Some (''<title>'' @ t @ ''</title>'')) 1]
         else if length t < 3
         then [create_finding PageTitleRule WARNING
                 (''Page title is very short: '' @ quoted t)
                 ''Provide a more descriptive page title (at least a few words)''
                 (Some (''<title>'' @ t @ ''</title>'')) 1]
         else [create_finding PageTitleRule PASS
                 (''Page has title: '' @ quoted t) ''N/A - Check passed'' None 1])"

section \<open>scanner/rules/operable.py\<close>

definition FormLabelRule :: rule_meta where
  "FormLabelRule =
     \<lparr> meta_rule_code = ''FORM_LABEL_MISSING'', meta_wcag_reference = ''3.3.2'',
       meta_wcag_level = AA, meta_principle = ''Operable'' \<rparr>"

text \<open>The inputs the loop skips with \<open>continue\<close>.\<close>

definition skipped_input :: "node \<Rightarrow> bool" where
  "skipped_input input_elem =
     (py_lower (get_default input_elem ''type'' ''text'')
        \<in> set [''hidden'', ''submit'', ''button'', ''reset''])"

text \<open>
  \<open>has_label\<close> at the end of one iteration: a \<open>label\<close> with a matching \<open>for\<close>, a wrapping
  \<open>label\<close>, \<open>aria-label\<close> or \<open>aria-labelledby\<close>, or \<open>title\<close>.
\<close>

definition has_label :: "ParsedHTML \<Rightarrow> node \<Rightarrow> node \<Rightarrow> bool" where
  "has_label p parent input_elem =
     ((case get input_elem ''id'' of
         None \<Rightarrow> False
       | Some input_id \<Rightarrow>
           input_id \<noteq> [] \<and> find_first (find_all_attr_eq (soup p) ''label'' ''for'' input_id) \<noteq> None)
      \<or> (is_tag parent \<and> name parent = ''label'')
      \<or> (get_truthy input_elem ''aria-label'' \<or> get_truthy input_elem ''aria-labelledby'')
      \<or> get_truthy input_elem ''title'')"

definition FormLabelRule_check :: "py_env \<Rightarrow> ParsedHTML \<Rightarrow> Finding list" where
  "FormLabelRule_check env p =
     (let unlabeled = map (\<lambda>(parent, input_elem). take 100 (str_of env input_elem))
                        (filter (\<lambda>(parent, input_elem).
                                   \<not> skipped_input input_elem \<and> \<not> has_label p parent input_elem)
                           (inputs_with_parent p))
      in if unlabeled \<noteq> []
         then [create_finding FormLabelRule FAIL
                 (str_nat (length unlabeled) @ '' form inputs missing labels'')
                 (''Add <label> elements with '' @ quoted ''for'' @ '' attribute, or use aria-label'')
                 (first_or_none unlabeled) (int (length unlabeled))]
         else if length (inputs p) > 0
         then [create_finding FormLabelRule PASS
                 (''All '' @ str_nat (length (inputs p)) @ '' form inputs have labels'')
                 ''N/A - Check passed'' None 1]
         else [create_finding FormLabelRule PASS ''No form inputs found on page''
                 ''N/A - No inputs to check'' None 1])"

definition ButtonAccessibleNameRule :: rule_meta where
  "ButtonAccessibleNameRule =
     \<lparr> meta_rule_code = ''BUTTON_NAME_MISSING'', meta_wcag_reference = ''4.1.2'',
       meta_wcag_level = AA, meta_principle = ''Operable'' \<rparr>"

definition has_name :: "node \<Rightarrow> bool" where
  "has_name btn =
     (py_strip (get_text btn) \<noteq> [] \<or> get_truthy btn ''value'' \<or> get_truthy btn ''aria-label''
      \<or> get_truthy btn ''aria-labelledby'' \<or> get_truthy btn ''title'')"

definition ButtonAccessibleNameRule_check :: "py_env \<Rightarrow> ParsedHTML \<Rightarrow> Finding list" where
  "ButtonAccessibleNameRule_check env p =
     (let unnamed = map (\<lambda>btn. take 100 (str_of env btn))
                      (filter (\<lambda>btn. \<not> has_name btn) (buttons p))
      in if unnamed \<noteq> []
         then [create_finding ButtonAccessibleNameRule FAIL
                 (str_nat (length unnamed) @ '' buttons missing accessible names'')
                 ''Add text content, value, aria-label, or title to buttons''
                 (first_or_none unnamed) (int (length unnamed))]
         else if length (buttons p) > 0
         then [create_finding ButtonAccessibleNameRule PASS
                 (''All '' @ str_nat (length (buttons p)) @ '' buttons have accessible names'')
                 ''N/A - Check passed'' None 1]
         else [create_finding ButtonAccessibleNameRule PASS ''No buttons found on page''
                 ''N/A - No buttons to check'' None 1])"

definition LinkTextRule :: rule_meta where
  "LinkTextRule =
     \<lparr> meta_rule_code = ''LINK_TEXT_EMPTY'', meta_wcag_reference = ''2.4.4'',
       meta_wcag_level = AA, meta_principle = ''Operable'' \<rparr>"

definition vague_texts :: "string list" where
  "vague_texts = [''click here'', ''read more'', ''more'', ''here'', ''link'']"

definition effective_text :: "node \<Rightarrow> string" where
  "effective_text link =
     (let text = py_lower (py_strip (get_text link));
          aria_label = py_strip (get_default link ''aria-label'' []);
          img_alt = (case find_first (find_all link [''img'']) of
                       None \<Rightarrow> []
                     | Some img \<Rightarrow> py_strip (get_default img ''alt'' []))
      in str_or (str_or text aria_label) img_alt)"

definition LinkTextRule_check :: "py_env \<Rightarrow> ParsedHTML \<Rightarrow> Finding list" where
  "LinkTextRule_check env p =
     (let empty_links = map (\<lambda>link. take 100 (str_of env link))
                          (filter (\<lambda>link. effective_text link = []) (links p));
          vague_links = map (\<lambda>link. take 100 (str_of env link))
                          (filter (\<lambda>link. effective_text link \<noteq> []
                                           \<and> effective_text link \<in> set vague_texts) (links p));
          findings1 = (if empty_links \<noteq> []
                       then [create_finding LinkTextRule FAIL
                               (str_nat (length empty_links) @ '' links have no text or accessible name'')
                               ''Add descriptive text or aria-label to links''
                               (first_or_none empty_links) (int (length empty_links))]
                       else []);
          findings2 = findings1 @
                      (if vague_links \<noteq> []
                       then [create_finding LinkTextRule WARNING
                               (str_nat (length vague_links) @ '' links have vague text (e.g., ''
                                  @ quoted ''click here'' @ '')'')
                               ''Use descriptive link text that makes sense out of context''
                               (first_or_none vague_links) (int (length vague_links))]
                       else [])
      in if findings2 = [] \<and> length (links p) > 0
         then findings2 @ [create_finding LinkTextRule PASS
                 (''All '' @ str_nat (length (links p)) @ '' links have meaningful text'')
                 ''N/A - Check passed'' None 1]
         else if findings2 = []
         then findings2 @ [create_finding LinkTextRule PASS ''No links found on page''
                 ''N/A - No links to check'' None 1]
         else findings2)"

section \<open>scanner/rules/understandable.py\<close>

definition HeadingHierarchyRule :: rule_meta where
  "HeadingHierarchyRule =
     \<lparr> meta_rule_code = ''HEADING_SKIP_LEVEL'', meta_wcag_reference = ''1.3.1'',
       meta_wcag_level = AA, meta_principle = ''Understandable'' \<rparr>"

text \<open>
  \<open>int(h.name[1])\<close>: an \<open>IndexError\<close> for a name shorter than two characters, a
  \<open>ValueError\<close> for a second character that is not a decimal digit.
\<close>

definition int_of_char :: "char \<Rightarrow> py_exception + int" where
  "int_of_char c =
     (let n = (of_char c :: nat)
      in if 48 \<le> n \<and> n \<le> 57 then Inr (int n - 48)
         else Inl (ValueError (''invalid literal for int() with base 10: '' @ quoted [c])))"

definition heading_level :: "node \<Rightarrow> py_exception + int" where
  "heading_level h =
     (case name h of
        c0 # c1 # _ \<Rightarrow> int_of_char c1
      | _ \<Rightarrow> Inl (IndexError ''string index out of range''))"

text \<open>The first loop: the levels of all headings, or the first exception.\<close>

fun heading_levels :: "node list \<Rightarrow> py_exception + (int \<times> node) list" where
  "heading_levels [] = Inr []"
| "heading_levels (h # hs) =
     (case heading_level h of
        Inl e \<Rightarrow> Inl e
      | Inr level \<Rightarrow>
          (case heading_levels hs of Inl e \<Rightarrow> Inl e | Inr rest \<Rightarrow> Inr ((level, h) # rest)))"

text \<open>The second loop from index 1 on, with \<open>prev_level\<close> threaded through.\<close>

fun skipped_after :: "int \<Rightarrow> (int \<times> node) list \<Rightarrow> string list" where
  "skipped_after prev_level [] = []"
| "skipped_after prev_level ((level, h) # rest) =
     (if level > prev_level + 1
      then [''Skipped from '' @ str_int prev_level @ '' to '' @ str_int level @ '' at heading: ''
              @ quoted (take 30 (py_strip (get_text h)))]
      else [])
     @ skipped_after level rest"

text \<open>The whole second loop: index 0 is compared with level 1.\<close>

definition skipped_levels :: "(int \<times> node) list \<Rightarrow> string list" where
  "skipped_levels lhs =
     (case lhs of
        [] \<Rightarrow> []
      | (level, h) # rest \<Rightarrow>
          (if level \<noteq> 1
           then [''First heading is '' @ name h @ '', should start with h1'']
           else [])
          @ skipped_after level rest)"

definition HeadingHierarchyRule_check :: rule where
  "HeadingHierarchyRule_check env p =
     (if headings p = []
      then Inr [create_finding HeadingHierarchyRule WARNING ''No heading elements found on page''
                   ''Add heading structure (h1-h6) to organize content'' None 1]
      else
        (case heading_levels (headings p) of
           Inl e \<Rightarrow> Inl e
         | Inr lhs \<Rightarrow>
             (let skipped = skipped_levels lhs
              in if skipped \<noteq> []
                 then Inr [create_finding HeadingHierarchyRule WARNING
                              (''Heading hierarchy has '' @ str_nat (length skipped) @ '' issues'')
                              ''Use sequential heading levels (h1 -> h2 -> h3) without skipping''
                              (first_or_none skipped) (int (length skipped))]
                 else Inr [create_finding HeadingHierarchyRule PASS
                              (''Heading hierarchy is correct ('' @ str_nat (length (headings p))
                                 @ '' headings)'')
                              ''N/A - Check passed'' None 1])))"

definition H1ExistsRule :: rule_meta where
  "H1ExistsRule =
     \<lparr> meta_rule_code = ''H1_MISSING_OR_MULTIPLE'', meta_wcag_reference = ''2.4.6'',
       meta_wcag_level = AA, meta_principle = ''Understandable'' \<rparr>"

definition H1ExistsRule_check :: "py_env \<Rightarrow> ParsedHTML \<Rightarrow> Finding list" where
  "H1ExistsRule_check env p =
     (let h1_elements = find_all (soup p) [''h1''];
          h1_count = length h1_elements
      in if h1_count = 0
         then [create_finding H1ExistsRule WARNING ''No <h1> element found on page''
                 ''Add a single <h1> element to serve as the main page heading'' None 1]
         else if h1_count > 1
         then [create_finding H1ExistsRule WARNING
                 (''Multiple <h1> elements found ('' @ str_nat h1_count @ ''): ''
                    @ join '', '' (map (\<lambda>h. take 30 (py_strip (get_text h))) (take 3 h1_elements)))
                 ''Use only one <h1> per page for the main heading'' None (int h1_count)]
         else [create_finding H1ExistsRule PASS
                 (''Page has one <h1>: ''
                    @ quoted (take 50 (py_strip (get_text (hd h1_elements)))))
                 ''N/A - Check passed'' None 1])"

section \<open>scanner/rules/robust.py\<close>

definition DuplicateIDRule :: rule_meta where
  "DuplicateIDRule =
     \<lparr> meta_rule_code = ''DUPLICATE_ID'', meta_wcag_reference = ''4.1.1'',
       meta_wcag_level = AA, meta_principle = ''Robust'' \<rparr>"

text \<open>The loop over \<open>all_ids\<close> with its two sets, \<open>seen\<close> and \<open>duplicates\<close>.\<close>

fun find_duplicates :: "string set \<Rightarrow> string set \<Rightarrow> string list \<Rightarrow> string set" where
  "find_duplicates seen duplicates [] = duplicates"
| "find_duplicates seen duplicates (id_val # rest) =
     find_duplicates (insert id_val seen)
       (if id_val \<in> seen then insert id_val duplicates else duplicates) rest"

definition DuplicateIDRule_check :: "py_env \<Rightarrow> ParsedHTML \<Rightarrow> Finding list" where
  "DuplicateIDRule_check env p =
     (let all_ids = get_all_ids p;
          duplicates = find_duplicates {} {} all_ids
      in if duplicates \<noteq> {}
         then [create_finding DuplicateIDRule FAIL
                 (str_nat (card duplicates) @ '' duplicate IDs found: ''
                    @ join '', '' (map quoted (take 5 (list_of_set env duplicates))))
                 ''Ensure all ID attributes are unique within the document''
                 None (int (card duplicates))]
         else if length all_ids > 0
         then [create_finding DuplicateIDRule PASS
                 (''All '' @ str_nat (length all_ids) @ '' IDs are unique'')
                 ''N/A - Check passed'' None 1]
         else [create_finding DuplicateIDRule PASS ''No ID attributes found''
                 ''N/A - No IDs to check'' None 1])"

definition ARIARoleValidRule :: rule_meta where
  "ARIARoleValidRule =
     \<lparr> meta_rule_code = ''ARIA_ROLE_INVALID'', meta_wcag_reference = ''4.1.2'',
       meta_wcag_level = AA, meta_principle = ''Robust'' \<rparr>"

definition VALID_ROLES :: "string list" where
  "VALID_ROLES =
     [''alert'', ''alertdialog'', ''application'', ''article'', ''banner'', ''button'',
      ''checkbox'', ''columnheader'', ''combobox'', ''complementary'', ''contentinfo'',
      ''definition'', ''dialog'', ''directory'', ''document'', ''feed'', ''figure'',
      ''form'', ''grid'', ''gridcell'', ''group'', ''heading'', ''img'', ''link'', ''list'',
      ''listbox'', ''listitem'', ''log'', ''main'', ''marquee'', ''math'', ''menu'',
      ''menubar'', ''menuitem'', ''menuitemcheckbox'', ''menuitemradio'', ''navigation'',
      ''none'', ''note'', ''option'', ''presentation'', ''progressbar'', ''radio'',
      ''radiogroup'', ''region'', ''row'', ''rowgroup'', ''rowheader'', ''scrollbar'',
      ''search'', ''searchbox'', ''separator'', ''slider'', ''spinbutton'', ''status'',
      ''switch'', ''tab'', ''table'', ''tablist'', ''tabpanel'', ''term'', ''textbox'',
      ''timer'', ''toolbar'', ''tooltip'', ''tree'', ''treegrid'', ''treeitem'']"

definition role_of :: "node \<Rightarrow> string" where
  "role_of elem = py_lower (py_strip (get_default elem ''role'' []))"

definition ARIARoleValidRule_check :: "py_env \<Rightarrow> ParsedHTML \<Rightarrow> Finding list" where
  "ARIARoleValidRule_check env p =
     (let elements_with_role = find_all_with_attr (soup p) ''role'';
          invalid_roles = map (\<lambda>elem. (role_of elem, take 100 (str_of env elem)))
                            (filter (\<lambda>elem. role_of elem \<noteq> [] \<and> role_of elem \<notin> set VALID_ROLES)
                               elements_with_role)
      in if invalid_roles \<noteq> []
         then [create_finding ARIARoleValidRule FAIL
                 (str_nat (length invalid_roles) @ '' invalid ARIA roles found: ''
                    @ join '', '' (map (\<lambda>r. quoted (fst r)) (take 5 invalid_roles)))
                 ''Use only valid ARIA 1.2 role values''
                 (first_or_none (map snd invalid_roles)) (int (length invalid_roles))]
         else if length elements_with_role > 0
         then [create_finding ARIARoleValidRule PASS
                 (''All '' @ str_nat (length elements_with_role) @ '' ARIA roles are valid'')
                 ''N/A - Check passed'' None 1]
         else [create_finding ARIARoleValidRule PASS ''No ARIA roles found''
                 ''N/A - No roles to check'' None 1])"

section \<open>scanner/rules/__init__.py\<close>

text \<open>The registry, in its order.  A rule with no raising operation always returns.\<close>

definition total_rule :: "(py_env \<Rightarrow> ParsedHTML \<Rightarrow> Finding list) \<Rightarrow> rule" where
  "total_rule check env p = Inr (check env p)"

definition ALL_RULES :: "rule list" where
  "ALL_RULES =
     [total_rule ImageAltTextRule_check,
      total_rule HTMLLangAttributeRule_check,
      total_rule PageTitleRule_check,
      total_rule FormLabelRule_check,
      total_rule ButtonAccessibleNameRule_check,
      total_rule LinkTextRule_check,
      HeadingHierarchyRule_check,
      total_rule H1ExistsRule_check,
      total_rule DuplicateIDRule_check,
      total_rule ARIARoleValidRule_check]"

section \<open>Python floats\<close>

text \<open>
  A Python \<open>float\<close> is an IEEE 754 double.  Its value is a rational number, and every
  operation returns the exact result rounded to the nearest double, ties to even: \<open>fl\<close>.
  For \<open>x \<noteq> 0\<close>, \<open>ilog2 \<bar>x\<bar>\<close> is the exponent of its binade and the 53-bit significand is
  \<open>x / 2 ^ (ilog2 \<bar>x\<bar> - 52)\<close> rounded to an integer.  Overflow and subnormal numbers are not
  modelled: the engine's values are 0 or lie between \<open>2 ^ -1022\<close> and \<open>2 ^ 1023\<close>.
\<close>

definition round_half_even :: "rat \<Rightarrow> int" where
  "round_half_even x =
     (let f = \<lfloor>x\<rfloor>; d = x - of_int f
      in if d < 1 / 2 then f else if d > 1 / 2 then f + 1 else if even f then f else f + 1)"

definition ilog2 :: "rat \<Rightarrow> int" where
  "ilog2 x = (if x \<ge> 1 then bitlen \<lfloor>x\<rfloor> - 1 else - bitlen (\<lceil>1 / x\<rceil> - 1))"

definition pow2 :: "int \<Rightarrow> rat" where
  "pow2 e = (if e \<ge> 0 then 2 ^ nat e else 1 / 2 ^ nat (- e))"

definition fl :: "rat \<Rightarrow> rat" where
  "fl x = (if x = 0 then 0
           else let e = ilog2 \<bar>x\<bar> - 52 in of_int (round_half_even (x / pow2 e)) * pow2 e)"

text \<open>\<open>float(n)\<close>, the conversion Python applies to an \<open>int\<close> operand of a float operation.\<close>

definition float_of_int :: "int \<Rightarrow> rat" where
  "float_of_int n = fl (of_int n)"

text \<open>
  \<open>round(x, 1)\<close>: the exact value of \<open>x\<close> is rounded to one decimal, ties to even, and
  the result is the double nearest to that decimal.
\<close>

definition round_1 :: "rat \<Rightarrow> rat" where
  "round_1 x = fl (of_int (round_half_even (x * 10)) / 10)"

section \<open>scanner/fetcher.py\<close>

record Settings =
  MAX_HTML_SIZE_MB :: int
  REQUEST_TIMEOUT :: int
  MAX_REDIRECTS :: int
  USER_AGENT :: string

text \<open>config.py: the defaults, which the environment may override.\<close>

definition default_settings :: Settings where
  "default_settings =
     \<lparr> MAX_HTML_SIZE_MB = 5, REQUEST_TIMEOUT = 10, MAX_REDIRECTS = 5,
       USER_AGENT = ''WebShepherd/1.0 (WCAG Accessibility Checker; +https://yorik.space/webshepherd)'' \<rparr>"

text \<open>
  What \<open>client.get\<close> does: it raises \<open>httpx.TimeoutException\<close>, or another
  \<open>httpx.RequestError\<close> (too many redirects among them) with its message, or an
  exception that is no \<open>httpx.RequestError\<close> (\<open>httpx.InvalidURL\<close> for one), which
  \<open>fetch\<close> does not catch, or it returns a response, whose body arrives whole:
  \<open>content\<close> are its bytes, \<open>response_text\<close> (\<open>response.text\<close>) is their decoding.
\<close>

datatype http_result =
    TimeoutException
  | RequestError string
  | Raised string
  | Response (status_code: int) (reason_phrase: string) (content_type: "string option")
      (content: string) (response_text: string)

text \<open>\<open>response.raise_for_status()\<close> of httpx raises unless the status is 2xx.\<close>

definition is_success :: "int \<Rightarrow> bool" where
  "is_success code = (200 \<le> code \<and> code \<le> 299)"

text \<open>
  The formatting \<open>:.1f\<close> of a float: its exact value rounded to one decimal, ties to
  even, printed with the sign, the integer part, a point and the one decimal.
\<close>

definition format_1f :: "rat \<Rightarrow> string" where
  "format_1f x =
     (let d = round_half_even (\<bar>x\<bar> * 10)
      in (if x < 0 then ''-'' else []) @ str_int (d div 10) @ ''.'' @ str_int (d mod 10))"

definition max_size :: "Settings \<Rightarrow> int" where
  "max_size st = MAX_HTML_SIZE_MB st * 1024 * 1024"

definition fetch :: "Settings \<Rightarrow> http_result \<Rightarrow> py_exception + string" where
  "fetch st r =
     (case r of
        TimeoutException \<Rightarrow>
          Inl (ValueError (''Request timeout after '' @ str_int (REQUEST_TIMEOUT st) @ '' seconds''))
      | RequestError m \<Rightarrow> Inl (ValueError (''Failed to fetch URL: '' @ m))
      | Raised m \<Rightarrow> Inl (OtherError m)
      | Response code reason ctype body txt \<Rightarrow>
          if \<not> is_success code
          then Inl (ValueError (''HTTP '' @ str_int code @ '': '' @ reason))
          else
            (let content_type = (case ctype of None \<Rightarrow> [] | Some c \<Rightarrow> c)
             in if \<not> str_contains ''text/html'' content_type
                then Inl (ValueError (''Invalid content type: '' @ content_type
                                        @ ''. Expected text/html''))
                else
                  (let content_length = int (length body)
                   in if content_length > max_size st
                      then Inl (ValueError
                             (''Content too large: ''
                                @ format_1f (fl (fl (float_of_int content_length / 1024) / 1024))
                                @ '' MB (max: '' @ str_int (MAX_HTML_SIZE_MB st) @ '' MB)''))
                      else Inr txt)))"

section \<open>scanner/engine.py\<close>

record ScanRecord =
  rec_scan_id :: string
  rec_url :: string
  rec_status :: ScanStatus
  rec_score :: "rat option"
  rec_findings :: "Finding list option"
  rec_total_checks :: int
  rec_passed_checks :: int
  rec_warnings :: int
  rec_failures :: int
  rec_perceivable_issues :: int
  rec_operable_issues :: int
  rec_understandable_issues :: int
  rec_robust_issues :: int
  rec_created_at :: int
  rec_completed_at :: "int option"
  rec_scan_duration_ms :: "int option"
  rec_error_message :: "string option"

record ScanResponse =
  scan_id :: string
  url :: string
  status :: ScanStatus
  score :: "rat option"
  findings :: "Finding list"
  total_checks :: int
  passed_checks :: int
  warnings :: int
  failures :: int
  created_at :: int
  completed_at :: "int option"
  scan_duration_ms :: "int option"
  perceivable_issues :: int
  operable_issues :: int
  understandable_issues :: int
  robust_issues :: int

text \<open>The rule loop: \<open>findings.extend(rule.check(parsed_html))\<close> for each rule in order.\<close>

fun run_rules :: "rule list \<Rightarrow> py_env \<Rightarrow> ParsedHTML \<Rightarrow> py_exception + Finding list" where
  "run_rules [] env p = Inr []"
| "run_rules (r # rs) env p =
     (case r env p of
        Inl e \<Rightarrow> Inl e
      | Inr rule_findings \<Rightarrow>
          (case run_rules rs env p of
             Inl e \<Rightarrow> Inl e
           | Inr rest \<Rightarrow> Inr (rule_findings @ rest)))"

text \<open>\<open>sum(1 for f in findings if f.severity.value == v)\<close>.\<close>

definition count_severity :: "string \<Rightarrow> Finding list \<Rightarrow> int" where
  "count_severity v fs = int (length (filter (\<lambda>f. severity_value (severity f) = v) fs))"

text \<open>The score before rounding, from \<open>passed\<close>, \<open>warnings\<close> and \<open>total\<close>.\<close>

definition raw_score :: "int \<Rightarrow> int \<Rightarrow> int \<Rightarrow> rat" where
  "raw_score passed warns total_n =
     (if total_n > 0
      then fl (fl (fl (float_of_int passed + fl (float_of_int warns * (1 / 2)))
                     / float_of_int total_n) * float_of_int 100)
      else 100)"

text \<open>The dictionary \<open>principle_counts\<close> and the loop that fills it.\<close>

definition principle_counts_init :: "string \<rightharpoonup> int" where
  "principle_counts_init =
     [''Perceivable'' \<mapsto> 0, ''Operable'' \<mapsto> 0, ''Understandable'' \<mapsto> 0, ''Robust'' \<mapsto> 0]"

text \<open>\<open>d.get(k, 0)\<close>; \<open>d[k]\<close> is the same on the four keys, which the dictionary always has.\<close>

definition dict_get0 :: "(string \<rightharpoonup> int) \<Rightarrow> string \<Rightarrow> int" where
  "dict_get0 d k = (case d k of None \<Rightarrow> 0 | Some v \<Rightarrow> v)"

fun count_principles :: "(string \<rightharpoonup> int) \<Rightarrow> Finding list \<Rightarrow> (string \<rightharpoonup> int)" where
  "count_principles pc [] = pc"
| "count_principles pc (f # fs) =
     count_principles
       (if severity_value (severity f) \<in> set [''warning'', ''fail'']
        then pc(principle f \<mapsto> dict_get0 pc (principle f) + 1)
        else pc)
       fs"

text \<open>
  What one scan takes from outside: the identifier and the clock readings, the answer
  of the network, the parser (BeautifulSoup), the rules' environment, and the message
  of the database's \<open>IntegrityError\<close>.
\<close>

record scan_env =
  new_scan_id :: string
  start_time :: int
  end_time :: int
  duration_ms :: int
  fail_time :: int
  http_get :: "string \<Rightarrow> http_result"
  parse :: "string \<Rightarrow> ParsedHTML"
  rules_env :: py_env
  integrity_message :: string

type_synonym database = "string \<rightharpoonup> ScanRecord"

text \<open>The row \<open>ScanRecord(scan_id, url, status)\<close> with the column defaults of database.py.\<close>

definition new_record :: "string \<Rightarrow> string \<Rightarrow> int \<Rightarrow> ScanRecord" where
  "new_record sid u now =
     \<lparr> rec_scan_id = sid, rec_url = u, rec_status = SCANNING, rec_score = None,
       rec_findings = None, rec_total_checks = 0, rec_passed_checks = 0, rec_warnings = 0,
       rec_failures = 0, rec_perceivable_issues = 0, rec_operable_issues = 0,
       rec_understandable_issues = 0, rec_robust_issues = 0, rec_created_at = now,
       rec_completed_at = None, rec_scan_duration_ms = None, rec_error_message = None \<rparr>"

text \<open>The \<open>except\<close> block: the row, when it exists, becomes failed with the message.\<close>

definition record_failure :: "scan_env \<Rightarrow> database \<Rightarrow> py_exception \<Rightarrow> database" where
  "record_failure env db e =
     (case db (new_scan_id env) of
        None \<Rightarrow> db
      | Some r \<Rightarrow>
          db(new_scan_id env \<mapsto>
               r\<lparr> rec_status := FAILED, rec_error_message := Some (str_exception e),
                  rec_completed_at := Some (fail_time env) \<rparr>))"

text \<open>The metrics of the \<open>try\<close> block, as the response carries them.\<close>

definition build_response :: "scan_env \<Rightarrow> string \<Rightarrow> Finding list \<Rightarrow> ScanResponse" where
  "build_response env u fs =
     (let passed = count_severity ''pass'' fs;
          warns = count_severity ''warning'' fs;
          fails = count_severity ''fail'' fs;
          total_n = int (length fs);
          sc = raw_score passed warns total_n;
          pc = count_principles principle_counts_init fs
      in \<lparr> scan_id = new_scan_id env, url = u, status = COMPLETE, score = Some (round_1 sc),
           findings = fs, total_checks = total_n, passed_checks = passed, warnings = warns,
           failures = fails, created_at = start_time env, completed_at = Some (end_time env),
           scan_duration_ms = Some (duration_ms env),
           perceivable_issues = dict_get0 pc ''Perceivable'',
           operable_issues = dict_get0 pc ''Operable'',
           understandable_issues = dict_get0 pc ''Understandable'',
           robust_issues = dict_get0 pc ''Robust'' \<rparr>)"

text \<open>The update of the row on success.\<close>

definition record_success :: "database \<Rightarrow> ScanResponse \<Rightarrow> database" where
  "record_success db resp =
     (case db (scan_id resp) of
        None \<Rightarrow> db
      | Some r \<Rightarrow>
          db(scan_id resp \<mapsto>
               r\<lparr> rec_status := COMPLETE, rec_score := score resp,
                  rec_findings := Some (findings resp), rec_total_checks := total_checks resp,
                  rec_passed_checks := passed_checks resp, rec_warnings := warnings resp,
                  rec_failures := failures resp,
                  rec_perceivable_issues := perceivable_issues resp,
                  rec_operable_issues := operable_issues resp,
                  rec_understandable_issues := understandable_issues resp,
                  rec_robust_issues := robust_issues resp,
                  rec_completed_at := completed_at resp,
                  rec_scan_duration_ms := scan_duration_ms resp \<rparr>))"

text \<open>
  \<open>scan_url\<close>: the response, or the exception it re-raises, and the database afterwards.
  The column \<open>scan_id\<close> is unique: when the table already has a row with the new
  identifier, the first commit raises inside the \<open>try\<close>, nothing is fetched, and the
  \<open>except\<close> block fails the row that was there.
\<close>

definition scan_url ::
  "Settings \<Rightarrow> scan_env \<Rightarrow> database \<Rightarrow> string \<Rightarrow> (py_exception + ScanResponse) \<times> database" where
  "scan_url st env db u =
     (case db (new_scan_id env) of
        Some old \<Rightarrow>
          (Inl (IntegrityError (integrity_message env)),
           record_failure env db (IntegrityError (integrity_message env)))
      | None \<Rightarrow>
          (let db1 = db(new_scan_id env \<mapsto> new_record (new_scan_id env) u (start_time env))
           in case fetch st (http_get env u) of
                Inl e \<Rightarrow> (Inl e, record_failure env db1 e)
              | Inr html_content \<Rightarrow>
                  (case run_rules ALL_RULES (rules_env env) (parse env html_content) of
                     Inl e \<Rightarrow> (Inl e, record_failure env db1 e)
                   | Inr fs \<Rightarrow>
                       (let resp = build_response env u fs
                        in (Inr resp, record_success db1 resp)))))"

section \<open>The score as the specification states it\<close>

text \<open>
  The specification's formula in exact arithmetic: \<open>((passed + 0.5 * warnings) / total)
  * 100\<close>, rounded to one decimal place (ties to even), and 100 when \<open>total\<close> is 0.
\<close>

definition exact_score :: "int \<Rightarrow> int \<Rightarrow> int \<Rightarrow> rat" where
  "exact_score passed warns total_n =
     ((of_int passed + (1 / 2) * of_int warns) / of_int total_n) * 100"

definition round_decimal_1 :: "rat \<Rightarrow> rat" where
  "round_decimal_1 x = of_int (round_half_even (x * 10)) / 10"

definition spec_score :: "int \<Rightarrow> int \<Rightarrow> int \<Rightarrow> rat" where
  "spec_score passed warns total_n =
     (if total_n = 0 then 100 else round_decimal_1 (exact_score passed warns total_n))"

section \<open>Shapes of results\<close>

text \<open>
  A rule's verdict: exactly one Pass finding, or a non-empty list of findings none of
  which is a Pass.
\<close>

definition verdict :: "Finding list \<Rightarrow> bool" where
  "verdict fs \<longleftrightarrow>
     (\<exists>f. fs = [f] \<and> severity f = PASS) \<or> (fs \<noteq> [] \<and> (\<forall>f \<in> set fs. severity f \<noteq> PASS))"

text \<open>The four principle buckets, and the sum of their counters in a dictionary.\<close>

definition four_principles :: "string list" where
  "four_principles = [''Perceivable'', ''Operable'', ''Understandable'', ''Robust'']"

definition issues_sum :: "(string \<rightharpoonup> int) \<Rightarrow> int" where
  "issues_sum pc = dict_get0 pc ''Perceivable'' + dict_get0 pc ''Operable''
                     + dict_get0 pc ''Understandable'' + dict_get0 pc ''Robust''"

section \<open>Sample documents\<close>

text \<open>
  Concrete inputs for the examples: an environment in which \<open>str(tag)\<close> prints the
  opening tag's name only and a set is listed in sorted order, and a few parsed pages.
\<close>

definition sample_str :: "node \<Rightarrow> string" where
  "sample_str n =
     (case n of Tag nm as cs \<Rightarrow> ''<'' @ nm @ ''>'' | NavigableString s \<Rightarrow> s | Comment s \<Rightarrow> [])"

definition sample_env :: py_env where
  "sample_env = \<lparr> str_of = sample_str, list_of_set = sorted_list_of_set \<rparr>"

text \<open>A page with a language, a title and the given body.\<close>

definition page :: "node list \<Rightarrow> ParsedHTML" where
  "page body =
     \<lparr> soup = Tag ''[document]'' []
                [Tag ''html'' [(''lang'', ''en'')]
                   [Tag ''head'' [] [Tag ''title'' [] [NavigableString ''Home page'']],
                    Tag ''body'' [] body]],
       raw_html = [] \<rparr>"

text \<open>\<open><h1>Welcome</h1>\<close>: every rule passes.\<close>

definition doc_plain :: ParsedHTML where
  "doc_plain = page [Tag ''h1'' [] [NavigableString ''Welcome'']]"

text \<open>\<open><img src="a.png">\<close> and \<open><img src="b.png" alt="">\<close>.\<close>

definition doc_two_images :: ParsedHTML where
  "doc_two_images =
     page [Tag ''img'' [(''src'', ''a.png'')] [],
           Tag ''img'' [(''src'', ''b.png''), (''alt'', [])] []]"

text \<open>Three elements with \<open>id="x"\<close> and one with \<open>id="y"\<close>.\<close>

definition doc_three_ids :: ParsedHTML where
  "doc_three_ids =
     page [Tag ''div'' [(''id'', ''x'')] [], Tag ''p'' [(''id'', ''x'')] [],
           Tag ''span'' [(''id'', ''x'')] [], Tag ''p'' [(''id'', ''y'')] []]"

text \<open>\<open><a href="#">Click here</a>\<close>.\<close>

definition doc_click_here :: ParsedHTML where
  "doc_click_here = page [Tag ''a'' [(''href'', ''#'')] [NavigableString ''Click here'']]"

text \<open>\<open><a href="#" aria-label="Click here"><img src="go.png" alt=""></a>\<close>.\<close>

definition doc_aria_click_here :: ParsedHTML where
  "doc_aria_click_here =
     page [Tag ''a'' [(''href'', ''#''), (''aria-label'', ''Click here'')]
             [Tag ''img'' [(''src'', ''go.png''), (''alt'', [])] []]]"

text \<open>The empty document: no element at all.\<close>

definition doc_empty :: ParsedHTML where
  "doc_empty = \<lparr> soup = Tag ''[document]'' [] [], raw_html = [] \<rparr>"

text \<open>
  A scan environment in which the network answers \<open>r\<close> and the parser returns \<open>doc\<close>;
  a response that passes the fetcher's gates; one with an HTML body of 5 MiB and one
  byte; the same body declared as JSON; the same body with status 404.
\<close>

definition sample_scan_env :: "http_result \<Rightarrow> ParsedHTML \<Rightarrow> scan_env" where
  "sample_scan_env r doc =
     \<lparr> new_scan_id = ''0123456789ab'', start_time = 0, end_time = 1500, duration_ms = 1500,
       fail_time = 1500, http_get = (\<lambda>u. r), parse = (\<lambda>html. doc), rules_env = sample_env,
       integrity_message = ''UNIQUE constraint failed: scans.scan_id'' \<rparr>"

definition ok_response :: http_result where
  "ok_response =
     Response 200 ''OK'' (Some ''text/html; charset=utf-8'') ''<html></html>'' ''<html></html>''"

definition big_html_response :: http_result where
  "big_html_response =
     Response 200 ''OK'' (Some ''text/html'') (replicate 5242881 (CHR ''a'')) []"

definition big_json_response :: http_result where
  "big_json_response =
     Response 200 ''OK'' (Some ''application/json'') (replicate 5242881 (CHR ''a'')) []"

definition big_404_response :: http_result where
  "big_404_response =
     Response 404 ''Not Found'' (Some ''text/html'') (replicate 5242881 (CHR ''a'')) []"

section \<open>Properties of the rules\<close>

lemma severity_create [simp]: "severity (create_finding m s msg r e c) = s"
  by (simp add: create_finding_def)

lemma count_create [simp]: "count (create_finding m s msg r e c) = c"
  by (simp add: create_finding_def)

lemma principle_create [simp]: "principle (create_finding m s msg r e c) = meta_principle m"
  by (simp add: create_finding_def)

lemma message_create [simp]: "message (create_finding m s msg r e c) = msg"
  by (simp add: create_finding_def)










text \<open>
  \<open>HeadingHierarchyRule\<close> never raises: every heading \<open>find_all\<close> returns is named
  \<open>h1\<close> to \<open>h6\<close>, so \<open>int(h.name[1])\<close> is defined.
\<close>

lemma heading_level_ok:
  "name h \<in> set [''h1'', ''h2'', ''h3'', ''h4'', ''h5'', ''h6''] \<Longrightarrow> \<exists>k. heading_level h = Inr k"
  by (auto simp: heading_level_def int_of_char_def)

lemma heading_levels_ok:
  "\<forall>h \<in> set hs. name h \<in> set [''h1'', ''h2'', ''h3'', ''h4'', ''h5'', ''h6'']
     \<Longrightarrow> \<exists>lhs. heading_levels hs = Inr lhs"
proof (induction hs)
  case Nil
  show ?case by simp
next
  case (Cons h hs)
  from Cons.prems obtain k where k: "heading_level h = Inr k"
    using heading_level_ok [of h] by auto
  from Cons obtain lhs where "heading_levels hs = Inr lhs" by auto
  with k show ?case by simp
qed

lemma headings_names:
  "\<forall>h \<in> set (headings p). name h \<in> set [''h1'', ''h2'', ''h3'', ''h4'', ''h5'', ''h6'']"
  by (simp add: headings_def find_all_def)

lemma heading_rule_total: "\<exists>fs. HeadingHierarchyRule_check env p = Inr fs \<and> verdict fs"
proof -
  obtain lhs where "heading_levels (headings p) = Inr lhs"
    using heading_levels_ok [OF headings_names] by blast
  then show ?thesis
    by (simp add: HeadingHierarchyRule_check_def Let_def verdict_def)
qed

text \<open>What the sample documents contain.\<close>

lemma images_doc_plain: "images doc_plain = []"
  by (simp add: images_def find_all_def descendants_def doc_plain_def page_def is_tag_def)

lemma images_doc_two_images:
  "images doc_two_images =
     [Tag ''img'' [(''src'', ''a.png'')] [], Tag ''img'' [(''src'', ''b.png''), (''alt'', [])] []]"
  by (simp add: images_def find_all_def descendants_def doc_two_images_def page_def is_tag_def)

lemma ids_doc_three_ids: "get_all_ids doc_three_ids = [''x'', ''x'', ''x'', ''y'']"
  by (simp add: get_all_ids_def find_all_with_attr_def descendants_def doc_three_ids_def
        page_def is_tag_def get_def get_default_def)



text \<open>
  C5.  \<open>total_checks\<close> is the length of the findings list, and \<open>passed_checks\<close>,
  \<open>warnings\<close> and \<open>failures\<close> add up to it, for every finding list (those a scan produces
  among them): every finding has exactly one of the three severities.
\<close>

lemma count_severity_total:
  "count_severity ''pass'' fs + count_severity ''warning'' fs + count_severity ''fail'' fs
     = int (length fs)"
proof (induction fs)
  case Nil
  show ?case by (simp add: count_severity_def)
next
  case (Cons f fs)
  then show ?case by (cases "severity f") (simp_all add: count_severity_def)
qed

theorem counters_add_up:
  "total_checks (build_response env u fs) = int (length (findings (build_response env u fs)))
   \<and> passed_checks (build_response env u fs) + warnings (build_response env u fs)
       + failures (build_response env u fs) = total_checks (build_response env u fs)"
  by (simp add: build_response_def Let_def count_severity_total)

text \<open>
  C6.  When some id value occurs more than once in the document, the duplicate-ID rule
  emits exactly one Fail finding, whose count is the number of distinct values that occur
  more than once, however often each of them occurs.
\<close>

lemma count_list_pos: "0 < count_list xs x \<longleftrightarrow> x \<in> set xs"
  using count_list_0_iff [of xs x] by auto

lemma find_duplicates_eq:
  "find_duplicates seen dups ids
     = dups \<union> {x \<in> set ids. x \<in> seen \<or> 1 < count_list ids x}"
proof (induction ids arbitrary: seen dups)
  case Nil
  show ?case by simp
next
  case (Cons a ids)
  show ?case
    by (simp add: Cons.IH) (auto simp: count_list_pos)
qed

lemma find_duplicates_set:
  "find_duplicates {} {} ids = set (filter (\<lambda>x. 1 < count_list ids x) ids)"
  by (auto simp: find_duplicates_eq)

theorem duplicate_ids_counted_once:
  "list_ex (\<lambda>x. 1 < count_list (get_all_ids p) x) (get_all_ids p) \<Longrightarrow>
     \<exists>f. DuplicateIDRule_check env p = [f] \<and> severity f = FAIL
       \<and> count f = int (length (remdups
                      (filter (\<lambda>x. 1 < count_list (get_all_ids p) x) (get_all_ids p))))"
proof -
  assume a: "list_ex (\<lambda>x. 1 < count_list (get_all_ids p) x) (get_all_ids p)"
  let ?d = "filter (\<lambda>x. 1 < count_list (get_all_ids p) x) (get_all_ids p)"
  from a have ne: "set ?d \<noteq> {}" by (auto simp: list_ex_iff)
  have card: "card (set ?d) = length (remdups ?d)" by (rule List.card_set)
  show ?thesis
    using ne card
    by (simp add: DuplicateIDRule_check_def Let_def find_duplicates_set del: set_filter)
qed

theorem duplicate_ids_counted_once_witness:
  "list_ex (\<lambda>x. 1 < count_list (get_all_ids doc_three_ids) x) (get_all_ids doc_three_ids)
   \<and> (\<exists>f. DuplicateIDRule_check sample_env doc_three_ids = [f] \<and> severity f = FAIL
          \<and> count f = 1)"
proof -
  have h: "list_ex (\<lambda>x. 1 < count_list (get_all_ids doc_three_ids) x) (get_all_ids doc_three_ids)"
    by (simp add: ids_doc_three_ids)
  show ?thesis
    using h duplicate_ids_counted_once [OF h, of sample_env]
    by (simp add: ids_doc_three_ids)
qed

text \<open>
  C7.  The image-alt rule emits exactly one finding: a Fail whose count is the number of
  \<open>img\<close> elements with no \<open>alt\<close> attribute when there is such an image, and a Pass
  otherwise; an \<open>alt\<close> that is present and empty does not count.  So a document with no
  \<open>img\<close> gets one Pass, and the two images of \<open>doc_two_images\<close> get one Fail with count 1.
\<close>

theorem image_alt_fails_absent_only:
  "\<exists>f. ImageAltTextRule_check env p = [f] \<and>
      (if list_ex (\<lambda>img. get img ''alt'' = None) (images p)
       then severity f = FAIL
            \<and> count f = int (length (filter (\<lambda>img. get img ''alt'' = None) (images p)))
       else severity f = PASS)"
  by (auto simp: ImageAltTextRule_check_def Let_def list_ex_iff filter_empty_conv)

theorem image_alt_fails_absent_only_witness:
  "(\<exists>f. ImageAltTextRule_check sample_env doc_two_images = [f] \<and> severity f = FAIL \<and> count f = 1)
   \<and> (\<exists>f. ImageAltTextRule_check sample_env doc_plain = [f] \<and> severity f = PASS)"
  using image_alt_fails_absent_only [of sample_env doc_two_images]
    image_alt_fails_absent_only [of sample_env doc_plain]
  by (simp add: images_doc_two_images images_doc_plain get_def)

text \<open>
  C3 (as amended).  A document with no images, no form inputs, no buttons, no links, no
  ids or no role attributes gets exactly one Pass finding, with a message saying so, from
  the image-alt, form-label, button-name, link-text, duplicate-ID and ARIA-role rule
  respectively.  The heading-hierarchy rule is different: a document with no headings
  gets exactly one Warning finding from it, "No heading elements found on page".
\<close>

theorem nothing_applicable:
  "(images p = [] \<longrightarrow>
      (\<exists>f. ImageAltTextRule_check env p = [f] \<and> severity f = PASS
           \<and> message f = ''All images have alt attributes''))
   \<and> (inputs p = [] \<longrightarrow>
      (\<exists>f. FormLabelRule_check env p = [f] \<and> severity f = PASS
           \<and> message f = ''No form inputs found on page''))
   \<and> (buttons p = [] \<longrightarrow>
      (\<exists>f. ButtonAccessibleNameRule_check env p = [f] \<and> severity f = PASS
           \<and> message f = ''No buttons found on page''))
   \<and> (links p = [] \<longrightarrow>
      (\<exists>f. LinkTextRule_check env p = [f] \<and> severity f = PASS
           \<and> message f = ''No links found on page''))
   \<and> (get_all_ids p = [] \<longrightarrow>
      (\<exists>f. DuplicateIDRule_check env p = [f] \<and> severity f = PASS
           \<and> message f = ''No ID attributes found''))
   \<and> (find_all_with_attr (soup p) ''role'' = [] \<longrightarrow>
      (\<exists>f. ARIARoleValidRule_check env p = [f] \<and> severity f = PASS
           \<and> message f = ''No ARIA roles found''))
   \<and> (headings p = [] \<longrightarrow>
      (\<exists>f. HeadingHierarchyRule_check env p = Inr [f] \<and> severity f = WARNING
           \<and> message f = ''No heading elements found on page''))"
proof (intro conjI impI)
  assume "images p = []"
  then show "\<exists>f. ImageAltTextRule_check env p = [f] \<and> severity f = PASS
           \<and> message f = ''All images have alt attributes''"
    by (simp add: ImageAltTextRule_check_def)
next
  assume "inputs p = []"
  then show "\<exists>f. FormLabelRule_check env p = [f] \<and> severity f = PASS
           \<and> message f = ''No form inputs found on page''"
    by (simp add: FormLabelRule_check_def inputs_def)
next
  assume "buttons p = []"
  then show "\<exists>f. ButtonAccessibleNameRule_check env p = [f] \<and> severity f = PASS
           \<and> message f = ''No buttons found on page''"
    by (simp add: ButtonAccessibleNameRule_check_def)
next
  assume "links p = []"
  then show "\<exists>f. LinkTextRule_check env p = [f] \<and> severity f = PASS
           \<and> message f = ''No links found on page''"
    by (simp add: LinkTextRule_check_def)
next
  assume "get_all_ids p = []"
  then show "\<exists>f. DuplicateIDRule_check env p = [f] \<and> severity f = PASS
           \<and> message f = ''No ID attributes found''"
    by (simp add: DuplicateIDRule_check_def)
next
  assume "find_all_with_attr (soup p) ''role'' = []"
  then show "\<exists>f. ARIARoleValidRule_check env p = [f] \<and> severity f = PASS
           \<and> message f = ''No ARIA roles found''"
    by (simp add: ARIARoleValidRule_check_def)
next
  assume "headings p = []"
  then show "\<exists>f. HeadingHierarchyRule_check env p = Inr [f] \<and> severity f = WARNING
           \<and> message f = ''No heading elements found on page''"
    by (simp add: HeadingHierarchyRule_check_def)
qed

lemma doc_empty_nothing:
  "images doc_empty = []" "inputs doc_empty = []" "buttons doc_empty = []"
  "links doc_empty = []" "get_all_ids doc_empty = []"
  "find_all_with_attr (soup doc_empty) ''role'' = []" "headings doc_empty = []"
  by (simp_all add: doc_empty_def images_def inputs_def inputs_with_parent_def buttons_def
        links_def get_all_ids_def find_all_with_attr_def headings_def find_all_def
        find_all_attr_eq_def descendants_def)

text \<open>
  The claim as stated fails on the empty document: it has no headings, and the
  heading-hierarchy rule's one finding is a Warning, not a Pass.
\<close>

theorem no_headings_is_a_warning:
  "headings doc_empty = []
   \<and> HeadingHierarchyRule_check sample_env doc_empty
       = Inr [create_finding HeadingHierarchyRule WARNING ''No heading elements found on page''
                ''Add heading structure (h1-h6) to organize content'' None 1]"
  by (simp add: doc_empty_nothing HeadingHierarchyRule_check_def)

theorem nothing_applicable_witness:
  "images doc_empty = [] \<and> inputs doc_empty = [] \<and> buttons doc_empty = []
   \<and> links doc_empty = [] \<and> get_all_ids doc_empty = []
   \<and> find_all_with_attr (soup doc_empty) ''role'' = [] \<and> headings doc_empty = []
   \<and> (\<exists>f. ImageAltTextRule_check sample_env doc_empty = [f] \<and> severity f = PASS)
   \<and> (\<exists>f. FormLabelRule_check sample_env doc_empty = [f] \<and> severity f = PASS)
   \<and> (\<exists>f. ButtonAccessibleNameRule_check sample_env doc_empty = [f] \<and> severity f = PASS)
   \<and> (\<exists>f. LinkTextRule_check sample_env doc_empty = [f] \<and> severity f = PASS)
   \<and> (\<exists>f. DuplicateIDRule_check sample_env doc_empty = [f] \<and> severity f = PASS)
   \<and> (\<exists>f. ARIARoleValidRule_check sample_env doc_empty = [f] \<and> severity f = PASS)
   \<and> (\<exists>f. HeadingHierarchyRule_check sample_env doc_empty = Inr [f] \<and> severity f = WARNING)"
  using nothing_applicable [of doc_empty sample_env] doc_empty_nothing by auto

lemma principle_total_rules:
  "\<forall>f \<in> set (ImageAltTextRule_check env p). principle f \<in> set four_principles"
  "\<forall>f \<in> set (HTMLLangAttributeRule_check env p). principle f \<in> set four_principles"
  "\<forall>f \<in> set (PageTitleRule_check env p). principle f \<in> set four_principles"
  "\<forall>f \<in> set (FormLabelRule_check env p). principle f \<in> set four_principles"
  "\<forall>f \<in> set (ButtonAccessibleNameRule_check env p). principle f \<in> set four_principles"
  "\<forall>f \<in> set (LinkTextRule_check env p). principle f \<in> set four_principles"
  "\<forall>f \<in> set (H1ExistsRule_check env p). principle f \<in> set four_principles"
  "\<forall>f \<in> set (DuplicateIDRule_check env p). principle f \<in> set four_principles"
  "\<forall>f \<in> set (ARIARoleValidRule_check env p). principle f \<in> set four_principles"
  by (simp_all add: four_principles_def ImageAltTextRule_check_def HTMLLangAttributeRule_check_def
        PageTitleRule_check_def FormLabelRule_check_def ButtonAccessibleNameRule_check_def
        LinkTextRule_check_def H1ExistsRule_check_def DuplicateIDRule_check_def
        ARIARoleValidRule_check_def Let_def ImageAltTextRule_def HTMLLangAttributeRule_def
        PageTitleRule_def FormLabelRule_def ButtonAccessibleNameRule_def LinkTextRule_def
        H1ExistsRule_def DuplicateIDRule_def ARIARoleValidRule_def split: option.split)

lemma principle_heading_rule:
  "HeadingHierarchyRule_check env p = Inr fs \<Longrightarrow> \<forall>f \<in> set fs. principle f \<in> set four_principles"
  by (auto simp: HeadingHierarchyRule_check_def Let_def four_principles_def HeadingHierarchyRule_def
        split: if_splits sum.splits)

lemma principle_catalogue:
  assumes "run_rules ALL_RULES env p = Inr fs"
  shows "\<forall>f \<in> set fs. principle f \<in> set four_principles"
proof -
  obtain hs where h: "HeadingHierarchyRule_check env p = Inr hs"
    using heading_rule_total [of env p] by blast
  have fs: "fs = ImageAltTextRule_check env p @ HTMLLangAttributeRule_check env p
      @ PageTitleRule_check env p @ FormLabelRule_check env p
      @ ButtonAccessibleNameRule_check env p @ LinkTextRule_check env p @ hs
      @ H1ExistsRule_check env p @ DuplicateIDRule_check env p @ ARIARoleValidRule_check env p"
    using assms h by (simp add: ALL_RULES_def total_rule_def)
  show ?thesis
    unfolding fs using principle_total_rules [of env p] principle_heading_rule [OF h]
    by (simp add: ball_Un)
qed

lemma count_principles_sum:
  "\<forall>f \<in> set fs. principle f \<in> set four_principles \<Longrightarrow>
     issues_sum (count_principles pc fs)
       = issues_sum pc + count_severity ''warning'' fs + count_severity ''fail'' fs"
proof (induction fs arbitrary: pc)
  case Nil
  show ?case by (simp add: count_severity_def)
next
  case (Cons f fs)
  from Cons.prems have rest: "\<forall>f \<in> set fs. principle f \<in> set four_principles" by simp
  from Cons.prems have pf: "principle f \<in> set four_principles" by simp
  from pf consider "principle f = ''Perceivable''" | "principle f = ''Operable''"
    | "principle f = ''Understandable''" | "principle f = ''Robust''"
    by (auto simp: four_principles_def)
  then have bump:
    "issues_sum (pc(principle f \<mapsto> dict_get0 pc (principle f) + 1)) = issues_sum pc + 1"
    by cases (simp_all add: issues_sum_def dict_get0_def)
  show ?case
    using bump bump [unfolded fun_upd_def]
    by (cases "severity f") (simp_all add: Cons.IH [OF rest] count_severity_def)
qed

lemma issues_sum_init: "issues_sum principle_counts_init = 0"
  by (simp add: issues_sum_def principle_counts_init_def dict_get0_def)

text \<open>
  C10.  In the response of every completed scan, the four per-principle counters add up
  to \<open>warnings + failures\<close>: every finding of the catalogue carries one of the four
  principles, a Warning or Fail finding increments the counter of its principle, and a
  Pass finding increments none.
\<close>

theorem principle_counters_cover_issues:
  "scan_url st env db u = (Inr resp, db') \<Longrightarrow>
     perceivable_issues resp + operable_issues resp + understandable_issues resp
       + robust_issues resp = warnings resp + failures resp"
proof -
  assume a: "scan_url st env db u = (Inr resp, db')"
  then obtain html fs where fs: "run_rules ALL_RULES (rules_env env) (parse env html) = Inr fs"
    and resp: "resp = build_response env u fs"
    by (auto simp: scan_url_def Let_def split: sum.splits option.splits)
  have "issues_sum (count_principles principle_counts_init fs)
          = count_severity ''warning'' fs + count_severity ''fail'' fs"
    using count_principles_sum [OF principle_catalogue [OF fs], of principle_counts_init]
    by (simp add: issues_sum_init)
  then show ?thesis
    by (simp add: resp build_response_def Let_def issues_sum_def)
qed

lemma run_rules_total: "\<exists>fs. run_rules ALL_RULES env p = Inr fs"
proof -
  obtain hs where h: "HeadingHierarchyRule_check env p = Inr hs"
    using heading_rule_total [of env p] by blast
  then show ?thesis by (simp add: ALL_RULES_def total_rule_def)
qed

lemma scan_url_completes:
  assumes "db (new_scan_id env) = None" and "fetch st (http_get env u) = Inr html"
  shows "\<exists>resp db'. scan_url st env db u = (Inr resp, db')"
proof -
  obtain fs where "run_rules ALL_RULES (rules_env env) (parse env html) = Inr fs"
    using run_rules_total by blast
  with assms show ?thesis by (simp add: scan_url_def Let_def)
qed

lemma fetch_ok_response: "fetch default_settings ok_response = Inr ''<html></html>''"
  by (simp add: fetch_def ok_response_def is_success_def max_size_def default_settings_def)

theorem principle_counters_cover_issues_witness:
  "\<exists>resp db'. scan_url default_settings (sample_scan_env ok_response doc_click_here) Map.empty
                 ''https://example.com'' = (Inr resp, db')
     \<and> perceivable_issues resp + operable_issues resp + understandable_issues resp
         + robust_issues resp = warnings resp + failures resp"
proof -
  have "fetch default_settings (http_get (sample_scan_env ok_response doc_click_here)
          ''https://example.com'') = Inr ''<html></html>''"
    by (simp add: sample_scan_env_def fetch_ok_response)
  from scan_url_completes [where db = Map.empty, OF refl this]
  obtain resp db' where s: "scan_url default_settings (sample_scan_env ok_response doc_click_here)
      Map.empty ''https://example.com'' = (Inr resp, db')" by blast
  from principle_counters_cover_issues [OF s] s show ?thesis by blast
qed

lemma links_doc_click_here:
  "links doc_click_here = [Tag ''a'' [(''href'', ''#'')] [NavigableString ''Click here'']]"
  by (simp add: links_def find_all_def descendants_def doc_click_here_def page_def is_tag_def)

lemma links_doc_aria_click_here:
  "links doc_aria_click_here =
     [Tag ''a'' [(''href'', ''#''), (''aria-label'', ''Click here'')]
        [Tag ''img'' [(''src'', ''go.png''), (''alt'', [])] []]]"
  by (simp add: links_def find_all_def descendants_def doc_aria_click_here_def page_def is_tag_def)

lemma py_lower_click: "py_lower ''Click here'' = ''click here''"
  by (simp add: py_lower_def py_lower_char_def py_isupper_def)

lemma py_strip_click: "py_strip ''Click here'' = ''Click here''"
  by (simp add: py_strip_def py_isspace_def)

lemma effective_text_own:
  "effective_text (Tag ''a'' [(''href'', ''#'')] [NavigableString ''Click here'']) = ''click here''"
  by (simp add: effective_text_def Let_def get_text_def descendants_def py_strip_click
        py_lower_click str_or_def)

lemma effective_text_aria:
  "effective_text (Tag ''a'' [(''href'', ''#''), (''aria-label'', ''Click here'')]
        [Tag ''img'' [(''src'', ''go.png''), (''alt'', [])] []]) = ''Click here''"
  by (simp add: effective_text_def Let_def get_text_def descendants_def py_strip_click
        py_lower_def py_strip_def py_isspace_def str_or_def get_default_def get_def find_first_def find_all_def is_tag_def)

text \<open>
  C9.  The link-text rule on two links.  \<open><a href="#">Click here</a>\<close> gets exactly one
  Warning finding (vague text), not a Fail.  A link whose text comes from
  \<open>aria-label="Click here"\<close> has the effective text \<open>Click here\<close>, which matches the phrase
  \<open>click here\<close> when compared case-insensitively and trimmed, as the claim says; the rule
  lower-cases the link's own text only, compares \<open>Click here\<close> as it is, and emits a Pass.
\<close>

theorem vague_link_text_by_source:
  "LinkTextRule_check sample_env doc_click_here
     = [create_finding LinkTextRule WARNING
          (''1 links have vague text (e.g., '' @ quoted ''click here'' @ '')'')
          ''Use descriptive link text that makes sense out of context'' (Some ''<a>'') 1]
   \<and> effective_text (hd (links doc_aria_click_here)) = ''Click here''
   \<and> py_lower (py_strip ''Click here'') \<in> set vague_texts
   \<and> LinkTextRule_check sample_env doc_aria_click_here
     = [create_finding LinkTextRule PASS ''All 1 links have meaningful text''
          ''N/A - Check passed'' None 1]"
  by (simp add: LinkTextRule_check_def Let_def links_doc_click_here links_doc_aria_click_here
        effective_text_own effective_text_aria vague_texts_def first_or_none_def sample_env_def
        sample_str_def str_nat.simps digit_char_def py_strip_click py_lower_click)

lemma fetch_oversized:
  assumes "int (length body) > max_size st"
  shows "\<exists>e. fetch st (Response code reason ctype body tx) = Inl e
     \<and> (\<not> is_success code \<longrightarrow> e = ValueError (''HTTP '' @ str_int code @ '': '' @ reason))
     \<and> (is_success code
          \<and> \<not> str_contains ''text/html'' (case ctype of None \<Rightarrow> [] | Some c \<Rightarrow> c)
          \<longrightarrow> e = ValueError (''Invalid content type: ''
                                @ (case ctype of None \<Rightarrow> [] | Some c \<Rightarrow> c)
                                @ ''. Expected text/html''))
     \<and> (is_success code
          \<and> str_contains ''text/html'' (case ctype of None \<Rightarrow> [] | Some c \<Rightarrow> c)
          \<longrightarrow> e = ValueError
                     (''Content too large: ''
                        @ format_1f (fl (fl (float_of_int (int (length body)) / 1024) / 1024))
                        @ '' MB (max: '' @ str_int (MAX_HTML_SIZE_MB st) @ '' MB)''))"
  using assms by (simp add: fetch_def Let_def)

lemma scan_url_fails:
  assumes "db (new_scan_id env) = None" and "fetch st (http_get env u) = Inl e"
  shows "fst (scan_url st env db u) = Inl e
     \<and> (\<exists>r. snd (scan_url st env db u) (new_scan_id env) = Some r \<and> rec_status r = FAILED
            \<and> rec_error_message r = Some (str_exception e) \<and> rec_score r = None
            \<and> rec_findings r = None)"
  using assms by (simp add: scan_url_def Let_def record_failure_def new_record_def)

text \<open>
  C8 (as amended).  A scan with a fresh identifier receives a response whose body is
  longer than the configured maximum.  The fetch then raises an exception and never
  returns a document: the status error for a status that is not 2xx, otherwise the
  content-type error for a content type that does not contain \<open>text/html\<close>, otherwise
  the size error "Content too large: ...", the gates being checked in this order.
  The scan re-raises that exception, and its database row is failed, with the
  exception's message, no score and no findings.
\<close>

theorem oversized_body_fails_the_scan:
  "db (new_scan_id env) = None \<Longrightarrow>
   http_get env u = Response code reason ctype body tx \<Longrightarrow>
   int (length body) > max_size st \<Longrightarrow>
     \<exists>e. fetch st (http_get env u) = Inl e
       \<and> (\<not> is_success code \<longrightarrow> e = ValueError (''HTTP '' @ str_int code @ '': '' @ reason))
       \<and> (is_success code
            \<and> \<not> str_contains ''text/html'' (case ctype of None \<Rightarrow> [] | Some c \<Rightarrow> c)
            \<longrightarrow> e = ValueError (''Invalid content type: ''
                                  @ (case ctype of None \<Rightarrow> [] | Some c \<Rightarrow> c)
                                  @ ''. Expected text/html''))
       \<and> (is_success code
            \<and> str_contains ''text/html'' (case ctype of None \<Rightarrow> [] | Some c \<Rightarrow> c)
            \<longrightarrow> e = ValueError
                       (''Content too large: ''
                          @ format_1f (fl (fl (float_of_int (int (length body)) / 1024) / 1024))
                          @ '' MB (max: '' @ str_int (MAX_HTML_SIZE_MB st) @ '' MB)''))
       \<and> fst (scan_url st env db u) = Inl e
       \<and> (\<exists>r. snd (scan_url st env db u) (new_scan_id env) = Some r \<and> rec_status r = FAILED
              \<and> rec_error_message r = Some (str_exception e) \<and> rec_score r = None
              \<and> rec_findings r = None)"
proof -
  assume fresh: "db (new_scan_id env) = None"
    and g: "http_get env u = Response code reason ctype body tx"
    and big: "int (length body) > max_size st"
  from fetch_oversized [OF big, of code reason ctype tx] obtain e where
    e: "fetch st (Response code reason ctype body tx) = Inl e"
      "\<not> is_success code \<longrightarrow> e = ValueError (''HTTP '' @ str_int code @ '': '' @ reason)"
      "is_success code
         \<and> \<not> str_contains ''text/html'' (case ctype of None \<Rightarrow> [] | Some c \<Rightarrow> c)
         \<longrightarrow> e = ValueError (''Invalid content type: ''
                               @ (case ctype of None \<Rightarrow> [] | Some c \<Rightarrow> c)
                               @ ''. Expected text/html'')"
      "is_success code
         \<and> str_contains ''text/html'' (case ctype of None \<Rightarrow> [] | Some c \<Rightarrow> c)
         \<longrightarrow> e = ValueError
                    (''Content too large: ''
                       @ format_1f (fl (fl (float_of_int (int (length body)) / 1024) / 1024))
                       @ '' MB (max: '' @ str_int (MAX_HTML_SIZE_MB st) @ '' MB)'')"
    by blast
  from e(1) g have f: "fetch st (http_get env u) = Inl e" by simp
  from scan_url_fails [where db = db and env = env, OF fresh f] e(2-4) f
  show ?thesis by blast
qed

text \<open>
  The claim as stated fails for a body of 5 MiB and one byte declared as
  \<open>application/json\<close>: the fetch fails with the content-type error, not the size error.
\<close>

theorem oversized_json_is_a_content_type_error:
  "int (length (content big_json_response)) > max_size default_settings
   \<and> fetch default_settings big_json_response
       = Inl (ValueError ''Invalid content type: application/json. Expected text/html'')"
  by (simp add: big_json_response_def fetch_def max_size_def default_settings_def is_success_def)

theorem oversized_body_fails_the_scan_witness:
  "(Map.empty :: database) ''0123456789ab'' = None
   \<and> int (length (replicate 5242881 (CHR ''a''))) > max_size default_settings
   \<and> is_success 200 \<and> str_contains ''text/html'' ''text/html''
   \<and> \<not> str_contains ''text/html'' ''application/json'' \<and> \<not> is_success 404
   \<and> (\<exists>m. fst (scan_url default_settings (sample_scan_env big_html_response doc_plain)
                    Map.empty ''https://example.com'')
               = Inl (ValueError (''Content too large: '' @ m))
          \<and> (\<exists>r. snd (scan_url default_settings (sample_scan_env big_html_response doc_plain)
                         Map.empty ''https://example.com'') ''0123456789ab'' = Some r
                 \<and> rec_status r = FAILED
                 \<and> rec_error_message r = Some (''Content too large: '' @ m)
                 \<and> rec_score r = None \<and> rec_findings r = None))
   \<and> fst (scan_url default_settings (sample_scan_env big_json_response doc_plain)
             Map.empty ''https://example.com'')
        = Inl (ValueError ''Invalid content type: application/json. Expected text/html'')
   \<and> fst (scan_url default_settings (sample_scan_env big_404_response doc_plain)
             Map.empty ''https://example.com'')
        = Inl (ValueError ''HTTP 404: Not Found'')"
proof -
  have fresh: "(Map.empty :: database) ''0123456789ab'' = None"
    by simp
  have big: "int (length (replicate 5242881 (CHR ''a''))) > max_size default_settings"
    by (simp add: max_size_def default_settings_def)
  have ok: "is_success 200" "str_contains ''text/html'' ''text/html''"
    "\<not> str_contains ''text/html'' ''application/json''" "\<not> is_success 404"
    by (simp_all add: is_success_def)
  have id: "new_scan_id (sample_scan_env r doc_plain) = ''0123456789ab''" for r
    by (simp add: sample_scan_env_def)
  have g1: "http_get (sample_scan_env big_html_response doc_plain) ''https://example.com''
     = Response 200 ''OK'' (Some ''text/html'') (replicate 5242881 (CHR ''a'')) []"
    by (simp add: sample_scan_env_def big_html_response_def)
  have g2: "http_get (sample_scan_env big_json_response doc_plain) ''https://example.com''
     = Response 200 ''OK'' (Some ''application/json'') (replicate 5242881 (CHR ''a'')) []"
    by (simp add: sample_scan_env_def big_json_response_def)
  have g3: "http_get (sample_scan_env big_404_response doc_plain) ''https://example.com''
     = Response 404 ''Not Found'' (Some ''text/html'') (replicate 5242881 (CHR ''a'')) []"
    by (simp add: sample_scan_env_def big_404_response_def)
  have s404: "str_int 404 = ''404''"
    by (simp add: str_int_def str_nat.simps digit_char_def)
  from oversized_body_fails_the_scan
         [where db = Map.empty and env = "sample_scan_env big_html_response doc_plain", OF refl g1 big] ok
  have c1: "\<exists>m. fst (scan_url default_settings (sample_scan_env big_html_response doc_plain)
                    Map.empty ''https://example.com'')
               = Inl (ValueError (''Content too large: '' @ m))
          \<and> (\<exists>r. snd (scan_url default_settings (sample_scan_env big_html_response doc_plain)
                         Map.empty ''https://example.com'') ''0123456789ab'' = Some r
                 \<and> rec_status r = FAILED
                 \<and> rec_error_message r = Some (''Content too large: '' @ m)
                 \<and> rec_score r = None \<and> rec_findings r = None)"
    by (simp only: option.case id) (metis str_exception.simps(1))
  from oversized_body_fails_the_scan
         [where db = Map.empty and env = "sample_scan_env big_json_response doc_plain", OF refl g2 big] ok
  have c2: "fst (scan_url default_settings (sample_scan_env big_json_response doc_plain)
             Map.empty ''https://example.com'')
        = Inl (ValueError ''Invalid content type: application/json. Expected text/html'')"
    by (simp only: option.case) auto
  from oversized_body_fails_the_scan
         [where db = Map.empty and env = "sample_scan_env big_404_response doc_plain", OF refl g3 big] ok
  have c3: "fst (scan_url default_settings (sample_scan_env big_404_response doc_plain)
             Map.empty ''https://example.com'')
        = Inl (ValueError ''HTTP 404: Not Found'')"
    by (auto simp: s404)
  from fresh big ok c1 c2 c3 show ?thesis by blast
qed

section \<open>Floating-point rounding and the score\<close>

text \<open>
  Rounding to a double changes a value by at most the fraction \<open>2 ^ -53\<close> of it, keeps
  integers below \<open>2 ^ 53\<close>, and rounding to the nearest integer is unique away from ties.
\<close>

lemma pow2_powi: "pow2 e = 2 powi e"
  by (simp add: pow2_def power_int_def inverse_eq_divide power_one_over)

lemma pow2_pos: "0 < pow2 e"
  by (simp add: pow2_powi)

lemma pow2_diff: "pow2 (a - b) = pow2 a / pow2 b"
  by (simp add: pow2_powi power_int_diff)

lemma pow2_mono: "a \<le> b \<Longrightarrow> pow2 a \<le> pow2 b"
  by (simp add: pow2_powi power_int_increasing)

lemma rhe_error: "\<bar>of_int (round_half_even y) - y\<bar> \<le> 1 / 2"
proof -
  have "of_int \<lfloor>y\<rfloor> \<le> y" "y < of_int \<lfloor>y\<rfloor> + 1" by linarith+
  then show ?thesis by (auto simp: round_half_even_def Let_def)
qed

lemma rhe_unique:
  assumes "\<bar>y - of_int n\<bar> < 1 / 2"
  shows "round_half_even y = n"
proof (cases "of_int n \<le> y")
  case True
  then have "\<lfloor>y\<rfloor> = n" using assms by (intro floor_unique) auto
  then show ?thesis using assms True by (simp add: round_half_even_def Let_def)
next
  case False
  then have "\<lfloor>y\<rfloor> = n - 1" using assms by (intro floor_unique) auto
  then show ?thesis using assms False by (simp add: round_half_even_def Let_def)
qed

lemma rhe_of_int: "round_half_even (of_int k) = k"
  by (rule rhe_unique) simp

lemma ilog2_le:
  assumes "0 < x"
  shows "pow2 (ilog2 x) \<le> x"
proof (cases "1 \<le> x")
  case True
  define n where "n = \<lfloor>x\<rfloor>"
  have n: "0 < n" using True by (simp add: n_def)
  have nx: "of_int n \<le> x" by (simp add: n_def)
  from bitlen_bounds [OF n] have b: "2 ^ nat (bitlen n - 1) \<le> n" by simp
  have b1: "0 \<le> bitlen n - 1" using n by (simp add: bitlen_alt_def)
  have "pow2 (ilog2 x) = 2 ^ nat (bitlen n - 1)"
    using True b1 by (simp add: ilog2_def n_def pow2_def)
  also have "\<dots> = of_int (2 ^ nat (bitlen n - 1))" by simp
  also have "\<dots> \<le> of_int n" using b by (simp only: of_int_le_iff)
  finally show ?thesis using nx by simp
next
  case False
  define m where "m = \<lceil>1 / x\<rceil> - 1"
  from False assms have x1: "1 < 1 / x" by (simp add: field_simps)
  then have "1 < \<lceil>1 / x\<rceil>" by linarith
  then have m: "0 < m" by (simp add: m_def)
  from bitlen_bounds [OF m] have b: "m < 2 ^ nat (bitlen m)" by simp
  then have b': "m + 1 \<le> 2 ^ nat (bitlen m)" by simp
  have bl: "0 < bitlen m" using m by (simp add: bitlen_alt_def)
  have "1 / x \<le> of_int \<lceil>1 / x\<rceil>" by linarith
  also have "\<dots> = of_int (m + 1)" by (simp add: m_def)
  also have "\<dots> \<le> of_int (2 ^ nat (bitlen m))" using b' by (simp only: of_int_le_iff)
  finally have "1 / x \<le> 2 ^ nat (bitlen m)" by simp
  then have "1 / 2 ^ nat (bitlen m) \<le> x" using assms by (simp add: field_simps)
  moreover have "pow2 (ilog2 x) = 1 / 2 ^ nat (bitlen m)"
    using False bl by (simp add: ilog2_def m_def pow2_def)
  ultimately show ?thesis by simp
qed

lemma fl_error: "\<bar>fl x - x\<bar> \<le> \<bar>x\<bar> / 2 ^ 53"
proof (cases "x = 0")
  case True
  then show ?thesis by (simp add: fl_def)
next
  case False
  define e where "e = ilog2 \<bar>x\<bar> - 52"
  define y where "y = x / pow2 e"
  have pe: "0 < pow2 e" by (rule pow2_pos)
  have flx: "fl x = of_int (round_half_even y) * pow2 e"
    using False by (simp add: fl_def Let_def e_def y_def)
  have xy: "y * pow2 e = x" using pe by (simp add: y_def)
  have "fl x - x = (of_int (round_half_even y) - y) * pow2 e"
    by (simp add: flx xy left_diff_distrib)
  then have "\<bar>fl x - x\<bar> = \<bar>of_int (round_half_even y) - y\<bar> * pow2 e"
    using pe by (simp add: abs_mult)
  also have "\<dots> \<le> (1 / 2) * pow2 e"
    using rhe_error [of y] pe by (intro mult_right_mono) auto
  also have "\<dots> = pow2 (ilog2 \<bar>x\<bar>) / 2 ^ 53"
    by (simp add: e_def pow2_diff) (simp add: pow2_def)
  also have "\<dots> \<le> \<bar>x\<bar> / 2 ^ 53"
    using ilog2_le [of "\<bar>x\<bar>"] False by (simp add: divide_right_mono)
  finally show ?thesis .
qed

lemma fl_lower: "0 \<le> L \<Longrightarrow> L \<le> x \<Longrightarrow> L * (1 - 1 / 2 ^ 53) \<le> fl x"
proof -
  assume L: "0 \<le> L" "L \<le> x"
  then have x: "0 \<le> x" by simp
  from fl_error [of x] x have "\<bar>fl x - x\<bar> \<le> x / 2 ^ 53" by simp
  then have "x - x / 2 ^ 53 \<le> fl x" by linarith
  moreover have "L * (1 - 1 / 2 ^ 53) \<le> x * (1 - 1 / 2 ^ 53)"
    using L by (intro mult_right_mono) auto
  ultimately show ?thesis by (simp add: algebra_simps)
qed

lemma fl_upper: "0 \<le> x \<Longrightarrow> x \<le> U \<Longrightarrow> fl x \<le> U * (1 + 1 / 2 ^ 53)"
proof -
  assume U: "0 \<le> x" "x \<le> U"
  from fl_error [of x] U have "\<bar>fl x - x\<bar> \<le> x / 2 ^ 53" by simp
  then have "fl x \<le> x + x / 2 ^ 53" by linarith
  moreover have "x * (1 + 1 / 2 ^ 53) \<le> U * (1 + 1 / 2 ^ 53)"
    using U by (intro mult_right_mono) auto
  ultimately show ?thesis by (simp add: algebra_simps)
qed

lemma fl_nonneg: "0 \<le> x \<Longrightarrow> 0 \<le> fl x"
  using fl_lower [of 0 x] by simp

lemma fl_of_int:
  assumes "\<bar>n\<bar> < 2 ^ 53"
  shows "fl (of_int n) = of_int n"
proof (cases "n = 0")
  case True
  then show ?thesis by (simp add: fl_def)
next
  case False
  define x :: rat where "x = of_int n"
  define e where "e = ilog2 \<bar>x\<bar> - 52"
  have x0: "x \<noteq> 0" "0 < \<bar>x\<bar>" using False by (simp_all add: x_def)
  have "pow2 (ilog2 \<bar>x\<bar>) \<le> \<bar>x\<bar>" using ilog2_le x0 by blast
  also have "\<bar>x\<bar> < 2 ^ 53"
  proof -
    have "\<bar>x\<bar> = of_int \<bar>n\<bar>" by (simp add: x_def)
    also have "\<dots> < of_int (2 ^ 53)" using assms by (simp only: of_int_less_iff)
    finally show ?thesis by simp
  qed
  finally have "pow2 (ilog2 \<bar>x\<bar>) < pow2 53" by (simp add: pow2_def)
  then have "ilog2 \<bar>x\<bar> < 53"
    using pow2_mono [of 53 "ilog2 \<bar>x\<bar>"] by (cases "ilog2 \<bar>x\<bar> < 53") auto
  then have e: "e \<le> 0" by (simp add: e_def)
  then have p: "pow2 e = 1 / 2 ^ nat (- e)"
    by (cases "e = 0") (simp_all add: pow2_def)
  have q: "x / pow2 e = of_int (n * 2 ^ nat (- e))" by (simp add: p x_def)
  have "round_half_even (x / pow2 e) = n * 2 ^ nat (- e)"
    by (simp only: q rhe_of_int)
  then have "fl x = of_int (n * 2 ^ nat (- e)) * pow2 e"
    using x0 by (simp add: fl_def Let_def e_def)
  also have "\<dots> = x" by (simp add: p x_def)
  finally show ?thesis by (simp add: x_def)
qed

text \<open>
  The score before rounding: four roundings separate it from the exact value \<open>E\<close>.
\<close>

lemma raw_score_bounds:
  fixes p w t :: int
  assumes p: "0 \<le> p" and w: "0 \<le> w" and pw: "p + w \<le> t" and t: "0 < t" and t53: "t < 2 ^ 53"
  defines "E \<equiv> (of_int p + of_int w / 2) / of_int t * (100 :: rat)"
  shows "E * (1 - 1 / 2 ^ 53) ^ 4 \<le> raw_score p w t \<and> raw_score p w t \<le> E * (1 + 1 / 2 ^ 53) ^ 4"
proof -
  define c :: rat where "c = 1 - 1 / 2 ^ 53"
  define d :: rat where "d = 1 + 1 / 2 ^ 53"
  have c0: "0 \<le> c" and c1: "c \<le> 1" and d1: "1 \<le> d" and d0: "0 \<le> d"
    by (simp_all add: c_def d_def)
  have LO: "0 \<le> L \<Longrightarrow> L \<le> x \<Longrightarrow> L * c \<le> fl x" for L x
    unfolding c_def by (rule fl_lower)
  have UP: "0 \<le> x \<Longrightarrow> x \<le> U \<Longrightarrow> fl x \<le> U * d" for x U
    unfolding d_def by (rule fl_upper)
  define A0 :: rat where "A0 = of_int p + of_int w / 2"
  have A0: "0 \<le> A0" using p w by (simp add: A0_def)
  have fp: "float_of_int p = of_int p" using p pw t53 w by (simp add: float_of_int_def fl_of_int)
  have fw: "float_of_int w = of_int w" using p pw t53 w by (simp add: float_of_int_def fl_of_int)
  have ft: "float_of_int t = of_int t" using t t53 by (simp add: float_of_int_def fl_of_int)
  have fh: "float_of_int 100 = 100" using fl_of_int [of 100] by (simp add: float_of_int_def)
  define W2 where "W2 = fl (of_int w * (1 / 2))"
  have w2: "0 \<le> (of_int w :: rat) / 2" using w by simp
  have W2lo: "of_int w / 2 * c \<le> W2" unfolding W2_def using w2 by (intro LO) auto
  have W2hi: "W2 \<le> of_int w / 2 * d" unfolding W2_def using w2 by (intro UP) auto
  define S where "S = of_int p + W2"
  have pc: "of_int p * c \<le> (of_int p :: rat)" using p c1 by (simp add: mult_left_le)
  have pd: "(of_int p :: rat) \<le> of_int p * d" using p d1 by (simp add: mult_le_cancel_left1)
  have Slo: "A0 * c \<le> S" using W2lo pc by (simp add: S_def A0_def algebra_simps)
  have Shi: "S \<le> A0 * d" using W2hi pd by (simp add: S_def A0_def algebra_simps)
  have S0: "0 \<le> S" using Slo A0 c0 by (meson mult_nonneg_nonneg order_trans)
  define a where "a = fl S"
  have alo: "A0 * c * c \<le> a" unfolding a_def using Slo A0 c0 by (intro LO) auto
  have ahi: "a \<le> A0 * d * d" unfolding a_def using Shi S0 by (intro UP) auto
  define Q where "Q = a / of_int t"
  have tpos: "0 < (of_int t :: rat)" using t by simp
  have Qlo: "A0 * c * c / of_int t \<le> Q" unfolding Q_def using alo tpos by (simp add: divide_right_mono)
  have Qhi: "Q \<le> A0 * d * d / of_int t" unfolding Q_def using ahi tpos by (simp add: divide_right_mono)
  have Ql0: "0 \<le> A0 * c * c / of_int t" using A0 c0 tpos by simp
  have Q0: "0 \<le> Q" using Ql0 Qlo by simp
  define q where "q = fl Q"
  have qlo: "A0 * c * c / of_int t * c \<le> q" unfolding q_def using Qlo Ql0 by (intro LO) auto
  have qhi: "q \<le> A0 * d * d / of_int t * d" unfolding q_def using Qhi Q0 by (intro UP) auto
  have ql0: "0 \<le> A0 * c * c / of_int t * c" using Ql0 c0 by (rule mult_nonneg_nonneg)
  have q0: "0 \<le> q" using ql0 qlo by simp
  define s where "s = fl (q * 100)"
  define Bl where "Bl = A0 * c * c / of_int t * c"
  define Bu where "Bu = A0 * d * d / of_int t * d"
  have Bl0': "0 \<le> Bl" using ql0 by (simp only: Bl_def)
  have Blq': "Bl \<le> q" using qlo by (simp only: Bl_def)
  have Buq': "q \<le> Bu" using qhi by (simp only: Bu_def)
  have Bl0: "0 \<le> Bl * 100" using Bl0' by simp
  have Blq: "Bl * 100 \<le> q * 100" using Blq' by simp
  have Buq: "q * 100 \<le> Bu * 100" using Buq' by simp
  have q100: "0 \<le> q * 100" using q0 by simp
  have slo': "Bl * 100 * c \<le> s" unfolding s_def using Bl0 Blq by (rule LO)
  have shi': "s \<le> Bu * 100 * d" unfolding s_def using q100 Buq by (rule UP)
  have slo: "A0 * c * c / of_int t * c * 100 * c \<le> s" using slo' by (simp only: Bl_def)
  have shi: "s \<le> A0 * d * d / of_int t * d * 100 * d" using shi' by (simp only: Bu_def)
  have rs: "raw_score p w t = s"
    using t by (simp add: raw_score_def fp fw ft fh s_def q_def Q_def a_def S_def W2_def)
  have E1: "A0 * c * c / of_int t * c * 100 * c = E * c ^ 4"
    by (simp add: E_def A0_def power4_eq_xxxx)
  have E2: "A0 * d * d / of_int t * d * 100 * d = E * d ^ 4"
    by (simp add: E_def A0_def power4_eq_xxxx)
  have "E * c ^ 4 \<le> s \<and> s \<le> E * d ^ 4" using slo shi by (simp only: E1 E2)
  then show ?thesis by (simp only: rs c_def d_def)
qed

text \<open>
  So \<open>round(score, 1)\<close> is the double nearest to the exact value rounded to one decimal,
  whenever that exact value is not halfway between two one-decimal numbers.
\<close>

lemma round_1_raw_score:
  fixes p w t :: int
  assumes p: "0 \<le> p" and w: "0 \<le> w" and pw: "p + w \<le> t" and t: "0 < t"
    and tb: "t \<le> 2 ^ 32" and notie: "(1000 * (2 * p + w)) mod (2 * t) \<noteq> t"
  shows "round_1 (raw_score p w t) = fl (spec_score p w t)"
proof -
  define E :: rat where "E = (of_int p + of_int w / 2) / of_int t * 100"
  define A :: rat where "A = (of_int p + of_int w / 2) / of_int t"
  define s where "s = raw_score p w t"
  define dd :: rat where "dd = (1 + 1 / 2 ^ 53) ^ 4 - 1"
  define cc :: rat where "cc = 1 - (1 - 1 / 2 ^ 53) ^ 4"
  define g :: rat where "g = 5000 / 2 ^ 53"
  define h :: rat where "h = 500 / 2 ^ 53"
  have dd: "0 \<le> dd" "dd \<le> 5 / 2 ^ 53" by (simp_all add: dd_def power4_eq_xxxx)
  have cc: "0 \<le> cc" "cc \<le> 5 / 2 ^ 53" by (simp_all add: cc_def power4_eq_xxxx)
  have t53: "t < 2 ^ 53" using tb by simp
  have tq: "0 < (of_int t :: rat)" using t by simp
  from raw_score_bounds [OF p w pw t t53]
  have b1: "E * (1 - 1 / 2 ^ 53) ^ 4 \<le> s" and b2: "s \<le> E * (1 + 1 / 2 ^ 53) ^ 4"
    by (simp_all only: E_def s_def)
  have c4: "(1 - 1 / 2 ^ 53) ^ 4 = 1 - cc" by (simp only: cc_def diff_diff_eq2 add_diff_cancel_left')
  have d4: "(1 + 1 / 2 ^ 53) ^ 4 = 1 + dd" by (simp only: dd_def add_diff_cancel_left' diff_add_cancel add.commute)
  have E0: "0 \<le> E" using p w tq by (simp add: E_def)
  have "(of_int p + of_int w / 2 :: rat) \<le> of_int (p + w)" using w by simp
  also have "\<dots> \<le> of_int t" using pw by (simp only: of_int_le_iff)
  finally have "(of_int p + of_int w / 2) / of_int t \<le> (1 :: rat)" using tq by simp
  then have A1: "A \<le> 1" by (simp only: A_def)
  have "E = A * 100" by (simp only: E_def A_def)
  then have E100: "E \<le> 100" using A1 by simp
  have "E * dd \<le> 100 * (5 / 2 ^ 53)" using E0 E100 dd by (intro mult_mono) auto
  moreover have "s - E \<le> E * dd" using b2 by (simp only: d4) (simp add: algebra_simps)
  ultimately have up: "s - E \<le> h" by (simp add: h_def)
  have "E * cc \<le> 100 * (5 / 2 ^ 53)" using E0 E100 cc by (intro mult_mono) auto
  moreover have "E - s \<le> E * cc" using b1 by (simp only: c4) (simp add: algebra_simps)
  ultimately have lo: "E - s \<le> h" by (simp add: h_def)
  have gh: "g = 10 * h" by (simp add: g_def h_def)
  have close: "\<bar>s * 10 - E * 10\<bar> \<le> g" using up lo unfolding gh by linarith
  define K where "K = 1000 * (2 * p + w)"
  define y where "y = E * 10"
  define n where "n = round_half_even y"
  have yK: "y * (2 * of_int t) = of_int K" using tq by (simp add: y_def E_def K_def field_simps)
  have "\<bar>of_int n - y\<bar> \<le> 1 / 2" unfolding n_def by (rule rhe_error)
  then have "\<bar>of_int n - y\<bar> * (2 * of_int t) \<le> 1 / 2 * (2 * of_int t)"
    using tq by (intro mult_right_mono) auto
  then have "\<bar>(of_int n - y) * (2 * of_int t)\<bar> \<le> of_int t"
    using tq by (simp add: abs_mult)
  then have "\<bar>of_int n * (2 * of_int t) - of_int K\<bar> \<le> (of_int t :: rat)"
    by (simp only: left_diff_distrib yK)
  then have "(of_int \<bar>n * (2 * t) - K\<bar> :: rat) \<le> of_int t" by simp
  then have i1: "\<bar>n * (2 * t) - K\<bar> \<le> t" by (simp only: of_int_le_iff)
  have i2: "\<bar>n * (2 * t) - K\<bar> \<noteq> t"
  proof
    assume "\<bar>n * (2 * t) - K\<bar> = t"
    then consider "K = n * (2 * t) + t" | "K = (n - 1) * (2 * t) + t"
      by (auto simp: abs_if algebra_simps split: if_splits)
    then have "K mod (2 * t) = t"
      using t by cases simp_all
    with notie show False by (simp add: K_def)
  qed
  from i1 i2 have "\<bar>n * (2 * t) - K\<bar> \<le> t - 1" by simp
  then have "(of_int \<bar>n * (2 * t) - K\<bar> :: rat) \<le> of_int (t - 1)" by (simp only: of_int_le_iff)
  then have "\<bar>of_int n * (2 * of_int t) - of_int K\<bar> \<le> (of_int t - 1 :: rat)" by simp
  then have "\<bar>(of_int n - y) * (2 * of_int t)\<bar> \<le> (of_int t - 1 :: rat)"
    by (simp only: left_diff_distrib yK)
  then have j: "\<bar>of_int n - y\<bar> * (2 * of_int t) \<le> (of_int t - 1 :: rat)"
    using tq by (simp add: abs_mult)
  have "(of_int t :: rat) \<le> of_int (2 ^ 32)" using tb by (simp only: of_int_le_iff)
  then have t32: "(of_int t :: rat) \<le> 2 ^ 32" by simp
  have "g * (2 * of_int t) \<le> g * (2 * 2 ^ 32)" using t32 by (simp add: g_def)
  also have "\<dots> < 1" by (simp add: g_def)
  finally have gt: "g * (2 * of_int t) < 1" .
  have "\<bar>s * 10 - of_int n\<bar> \<le> \<bar>s * 10 - y\<bar> + \<bar>of_int n - y\<bar>" by simp
  then have "\<bar>s * 10 - of_int n\<bar> * (2 * of_int t)
               \<le> (\<bar>s * 10 - y\<bar> + \<bar>of_int n - y\<bar>) * (2 * of_int t)"
    using tq by (intro mult_right_mono) auto
  also have "\<dots> = \<bar>s * 10 - y\<bar> * (2 * of_int t) + \<bar>of_int n - y\<bar> * (2 * of_int t)"
    by (simp add: algebra_simps)
  also have "\<dots> \<le> g * (2 * of_int t) + (of_int t - 1)"
    using close j tq by (intro add_mono mult_right_mono) (auto simp: y_def)
  also have "\<dots> < of_int t" using gt by simp
  also have "\<dots> = 1 / 2 * (2 * of_int t)" by simp
  finally have "\<bar>s * 10 - of_int n\<bar> < 1 / 2" using tq by (simp only: mult_less_cancel_right_pos) 
  then have r: "round_half_even (s * 10) = n" by (rule rhe_unique)
  have sp: "spec_score p w t = of_int n / 10"
    using t by (simp add: spec_score_def round_decimal_1_def exact_score_def n_def y_def E_def)
  have "round_1 s = fl (of_int n / 10)" by (simp add: round_1_def r)
  then show ?thesis by (simp only: s_def sp)
qed

text \<open>A scan's list has 10 or 11 findings: one per rule, and one or two for the links.\<close>

lemma rule_lengths:
  "length (ImageAltTextRule_check env p) = 1"
  "length (HTMLLangAttributeRule_check env p) = 1"
  "length (PageTitleRule_check env p) = 1"
  "length (FormLabelRule_check env p) = 1"
  "length (ButtonAccessibleNameRule_check env p) = 1"
  "length (LinkTextRule_check env p) = 1 \<or> length (LinkTextRule_check env p) = 2"
  "length (H1ExistsRule_check env p) = 1"
  "length (DuplicateIDRule_check env p) = 1"
  "length (ARIARoleValidRule_check env p) = 1"
  by (simp_all add: ImageAltTextRule_check_def HTMLLangAttributeRule_check_def
        PageTitleRule_check_def FormLabelRule_check_def ButtonAccessibleNameRule_check_def
        LinkTextRule_check_def H1ExistsRule_check_def DuplicateIDRule_check_def
        ARIARoleValidRule_check_def Let_def split: option.split)

lemma heading_rule_length:
  assumes "HeadingHierarchyRule_check env p = Inr hs"
  shows "length hs = 1"
proof -
  obtain lhs where "heading_levels (headings p) = Inr lhs"
    using heading_levels_ok [OF headings_names] by blast
  with assms show ?thesis
    by (cases "headings p = []"; cases "skipped_levels lhs = []")
       (auto simp: HeadingHierarchyRule_check_def Let_def)
qed

lemma run_rules_catalogue:
  "\<exists>hs. HeadingHierarchyRule_check env p = Inr hs
     \<and> run_rules ALL_RULES env p
         = Inr (ImageAltTextRule_check env p @ HTMLLangAttributeRule_check env p
                @ PageTitleRule_check env p @ FormLabelRule_check env p
                @ ButtonAccessibleNameRule_check env p @ LinkTextRule_check env p @ hs
                @ H1ExistsRule_check env p @ DuplicateIDRule_check env p
                @ ARIARoleValidRule_check env p)"
proof -
  obtain hs where h: "HeadingHierarchyRule_check env p = Inr hs"
    using heading_rule_total [of env p] by blast
  then show ?thesis by (simp add: ALL_RULES_def total_rule_def)
qed

lemma scan_length:
  assumes "run_rules ALL_RULES env p = Inr fs"
  shows "length fs = 10 \<or> length fs = 11"
proof -
  from run_rules_catalogue [of env p] assms obtain hs where
    h: "HeadingHierarchyRule_check env p = Inr hs" and
    fs: "fs = ImageAltTextRule_check env p @ HTMLLangAttributeRule_check env p
                @ PageTitleRule_check env p @ FormLabelRule_check env p
                @ ButtonAccessibleNameRule_check env p @ LinkTextRule_check env p @ hs
                @ H1ExistsRule_check env p @ DuplicateIDRule_check env p
                @ ARIARoleValidRule_check env p"
    by auto
  show ?thesis
    unfolding fs using rule_lengths [of env p] heading_rule_length [OF h] by auto
qed

lemma count_severity_nonneg: "0 \<le> count_severity v fs"
  by (simp add: count_severity_def)

lemma no_tie_10: "(1000 * (k :: int)) mod (2 * 10) \<noteq> 10"
proof -
  have "(1000 * k) mod 20 = (20 * (50 * k)) mod 20" by simp
  then show ?thesis by simp
qed

lemma no_tie_11: "(1000 * (k :: int)) mod (2 * 11) \<noteq> 11"
proof
  assume a: "(1000 * k) mod (2 * 11) = 11"
  have "2 dvd (1000 * k) mod 22" by (rule dvd_mod) simp_all
  with a show False by simp
qed

lemma score_build_response:
  "score (build_response env u fs)
     = Some (round_1 (raw_score (count_severity ''pass'' fs) (count_severity ''warning'' fs)
                        (int (length fs))))"
  by (simp add: build_response_def Let_def)

lemma scan_score:
  assumes "run_rules ALL_RULES e p = Inr fs"
  shows "score (build_response env u fs)
           = Some (fl (spec_score (count_severity ''pass'' fs) (count_severity ''warning'' fs)
                          (int (length fs))))"
proof -
  define P where "P = count_severity ''pass'' fs"
  define W where "W = count_severity ''warning'' fs"
  define t where "t = int (length fs)"
  have P: "0 \<le> P" and W: "0 \<le> W" by (simp_all add: P_def W_def count_severity_nonneg)
  have PW: "P + W \<le> t"
    using count_severity_total [of fs] count_severity_nonneg [of "''fail''" fs]
    by (simp add: P_def W_def t_def)
  from scan_length [OF assms] have t: "t = 10 \<or> t = 11" by (auto simp: t_def)
  then have t0: "0 < t" and t32: "t \<le> 2 ^ 32" by auto
  from t have nt: "(1000 * (2 * P + W)) mod (2 * t) \<noteq> t"
    using no_tie_10 [of "2 * P + W"] no_tie_11 [of "2 * P + W"] by auto
  have "round_1 (raw_score P W t) = fl (spec_score P W t)"
    using P W PW t0 t32 nt by (rule round_1_raw_score)
  then show ?thesis by (simp only: score_build_response P_def W_def t_def)
qed

lemma empty_score: "score (build_response env u []) = Some 100"
proof -
  have "fl (of_int 100) = of_int 100" by (rule fl_of_int) simp
  then have "fl 100 = 100" by simp
  moreover have "round_half_even (100 * 10) = 1000" using rhe_of_int [of 1000] by simp
  ultimately show ?thesis
    by (simp add: score_build_response count_severity_def raw_score_def round_1_def)
qed

lemma sev_plain:
  "map_sum id (map severity) (run_rules ALL_RULES sample_env doc_plain)
     = Inr [PASS, PASS, PASS, PASS, PASS, PASS, PASS, PASS, PASS, PASS]"
  by code_simp


lemma count_severity_map:
  "count_severity v fs = int (length (filter (\<lambda>s. severity_value s = v) (map severity fs)))"
  by (simp add: count_severity_def filter_map comp_def)

lemma scan_url_response:
  assumes "db (new_scan_id env) = None" and "fetch st (http_get env u) = Inr html"
    and "run_rules ALL_RULES (rules_env env) (parse env html) = Inr fs"
  shows "fst (scan_url st env db u) = Inr (build_response env u fs)"
  using assms by (simp add: scan_url_def Let_def)

lemma fl_100: "fl 100 = 100"
  using fl_of_int [of 100] by simp

lemma fl_decimal_range:
  assumes "0 \<le> n" "n \<le> 1000"
  shows "0 \<le> fl (of_int n / 10) \<and> fl (of_int n / 10) \<le> 100
           \<and> (fl (of_int n / 10) = 100 \<longleftrightarrow> n = 1000)"
proof (cases "n = 1000")
  case True
  then show ?thesis by (simp add: fl_100)
next
  case False
  with assms have n: "n \<le> 999" by simp
  define x :: rat where "x = of_int n / 10"
  have x0: "0 \<le> x" using assms by (simp add: x_def)
  have "(of_int n :: rat) \<le> of_int 999" using n by (simp only: of_int_le_iff)
  then have x1: "x \<le> 999 / 10" by (simp add: x_def)
  have "fl x \<le> 999 / 10 * (1 + 1 / 2 ^ 53)" using x0 x1 by (rule fl_upper)
  also have "\<dots> < 100" by simp
  finally have "fl x < 100" .
  moreover have "0 \<le> fl x" using x0 by (rule fl_nonneg)
  ultimately show ?thesis using False by (simp add: x_def)
qed

lemma spec_score_range:
  fixes P W F t :: int
  assumes P: "0 \<le> P" and W: "0 \<le> W" and F: "0 \<le> F" and sum: "P + W + F = t"
    and t0: "0 < t" and t11: "t \<le> 11"
  shows "\<exists>n. spec_score P W t = of_int n / 10 \<and> 0 \<le> n \<and> n \<le> 1000
           \<and> (n = 1000 \<longleftrightarrow> W = 0 \<and> F = 0)"
proof -
  define y :: rat where "y = (of_int P + (1 / 2) * of_int W) / of_int t * 100 * 10"
  define n where "n = round_half_even y"
  define K where "K = 1000 * (2 * P + W)"
  have tq: "0 < (of_int t :: rat)" using t0 by simp
  have sp: "spec_score P W t = of_int n / 10" using t0 by (simp add: spec_score_def round_decimal_1_def exact_score_def n_def y_def)
  have yK: "y * (2 * of_int t) = of_int K" using tq by (simp add: y_def K_def field_simps)
  have K0: "0 \<le> K" using P W by (simp add: K_def)
  have K1: "K \<le> 2000 * t" using F W sum by (simp add: K_def)
  have "0 \<le> of_int K / (2 * of_int t :: rat)" using K0 tq by simp
  moreover have "y = of_int K / (2 * of_int t)" using yK tq by (simp add: field_simps)
  ultimately have y0: "0 \<le> y" by simp
  have "(of_int K :: rat) \<le> of_int (2000 * t)" using K1 by (simp only: of_int_le_iff)
  then have "y * (2 * of_int t) \<le> 1000 * (2 * of_int t)" by (simp add: yK)
  then have y1: "y \<le> 1000" using tq by (simp only: mult_le_cancel_right_pos; simp?)
  have e: "\<bar>of_int n - y\<bar> \<le> 1 / 2" unfolding n_def by (rule rhe_error)
  have "(of_int n :: rat) < of_int 1001" using e y1 by (simp; linarith?)
  then have n1: "n \<le> 1000" by (simp only: of_int_less_iff; simp?)
  have "(of_int (- 1) :: rat) < of_int n" using e y0 by (simp; linarith?)
  then have n0: "0 \<le> n" by (simp only: of_int_less_iff; simp?)
  have iff: "n = 1000 \<longleftrightarrow> W = 0 \<and> F = 0"
  proof
    assume "W = 0 \<and> F = 0"
    then have "P = t" using sum by simp
    then have "y = of_int 1000" using tq \<open>W = 0 \<and> F = 0\<close> by (simp add: y_def)
    then show "n = 1000" unfolding n_def by (simp only: rhe_of_int)
  next
    assume "n = 1000"
    then have "1000 - 1 / 2 \<le> y" using e by (simp; linarith?)
    then have "(1000 - 1 / 2) * (2 * of_int t) \<le> y * (2 * of_int t)"
      using tq by (intro mult_right_mono) auto
    then have h1: "(1000 - 1 / 2) * (2 * of_int t) \<le> (of_int K :: rat)" by (simp only: yK)
    have eq: "(of_int (1999 * t) :: rat) = (1000 - 1 / 2) * (2 * of_int t)" by simp
    have "(of_int (1999 * t) :: rat) \<le> of_int K" by (simp only: eq h1)
    then have "1999 * t \<le> K" by (simp only: of_int_le_iff)
    then show "W = 0 \<and> F = 0" using P W F sum t11 by (simp add: K_def; linarith?)
  qed
  from sp n0 n1 iff show ?thesis by blast
qed





lemma spec_score_10_0_10: "fl (spec_score 10 0 10) = 100"
proof -
  have "exact_score 10 0 10 * 10 = of_int 1000" by (simp add: exact_score_def)
  then have "round_half_even (exact_score 10 0 10 * 10) = 1000" by (simp only: rhe_of_int)
  then have "spec_score 10 0 10 = 100" by (simp add: spec_score_def round_decimal_1_def)
  then show ?thesis by (simp add: fl_100)
qed


text \<open>
  C2 as stated fails on the scan of \<open>doc_plain\<close>: every one of its ten findings is a
  Pass, so the score is 100.0 while \<open>total_checks\<close> is 10, not 0.
\<close>

theorem all_pass_scan_scores_100:
  "\<not> isl (fst (scan_url default_settings (sample_scan_env ok_response doc_plain) Map.empty
                 ''https://example.com''))
   \<and> score (projr (fst (scan_url default_settings (sample_scan_env ok_response doc_plain)
                          Map.empty ''https://example.com''))) = Some 100
   \<and> total_checks (projr (fst (scan_url default_settings (sample_scan_env ok_response doc_plain)
                                 Map.empty ''https://example.com''))) = 10"
proof -
  from sev_plain obtain fs where r: "run_rules ALL_RULES sample_env doc_plain = Inr fs"
    and m: "map severity fs = [PASS, PASS, PASS, PASS, PASS, PASS, PASS, PASS, PASS, PASS]"
    by (cases "run_rules ALL_RULES sample_env doc_plain") auto
  from m have l: "length fs = 10" using length_map [of severity fs] by simp
  have c: "count_severity ''pass'' fs = 10" "count_severity ''warning'' fs = 0"
    by (simp_all add: count_severity_map m)
  have f: "fetch default_settings (http_get (sample_scan_env ok_response doc_plain)
             ''https://example.com'') = Inr ''<html></html>''"
    by (simp add: sample_scan_env_def fetch_ok_response)
  have r': "run_rules ALL_RULES (rules_env (sample_scan_env ok_response doc_plain))
              (parse (sample_scan_env ok_response doc_plain) ''<html></html>'') = Inr fs"
    using r by (simp add: sample_scan_env_def)
  have s: "fst (scan_url default_settings (sample_scan_env ok_response doc_plain) Map.empty
                 ''https://example.com'')
             = Inr (build_response (sample_scan_env ok_response doc_plain) ''https://example.com'' fs)"
    by (rule scan_url_response [where db = Map.empty, OF refl f r'])
  have sc: "score (build_response (sample_scan_env ok_response doc_plain) ''https://example.com'' fs)
              = Some 100"
    using scan_score [OF r] by (simp add: c l spec_score_10_0_10)
  have tc: "total_checks (build_response (sample_scan_env ok_response doc_plain)
              ''https://example.com'' fs) = 10"
    by (simp add: build_response_def Let_def l)
  show ?thesis by (simp add: s sc tc)
qed

text \<open>
  C2 (as amended).  The empty finding list, for which \<open>total_checks\<close> is 0, scores
  100.0.  For the response of every completed scan the score lies in the closed interval
  from 0 to 100, \<open>total_checks\<close> is 10 or 11, never 0, and the score is 100.0 exactly
  when the scan has no warnings and no failures.
\<close>

theorem scan_score_in_range:
  "score (build_response env u []) = Some 100
   \<and> total_checks (build_response env u []) = 0
   \<and> (scan_url st env db u = (Inr resp, db') \<longrightarrow>
        (\<exists>s. score resp = Some s \<and> 0 \<le> s \<and> s \<le> 100
              \<and> (s = 100 \<longleftrightarrow> warnings resp = 0 \<and> failures resp = 0))
        \<and> (total_checks resp = 10 \<or> total_checks resp = 11))"
proof (intro conjI impI)
  show "score (build_response env u []) = Some 100" by (rule empty_score)
  show "total_checks (build_response env u []) = 0" by (simp add: build_response_def Let_def)
next
  assume a: "scan_url st env db u = (Inr resp, db')"
  then obtain html fs where fs: "run_rules ALL_RULES (rules_env env) (parse env html) = Inr fs"
    and resp: "resp = build_response env u fs"
    by (auto simp: scan_url_def Let_def split: sum.splits option.splits)
  define P where "P = count_severity ''pass'' fs"
  define W where "W = count_severity ''warning'' fs"
  define F where "F = count_severity ''fail'' fs"
  define t where "t = int (length fs)"
  have nn: "0 \<le> P" "0 \<le> W" "0 \<le> F" by (simp_all add: P_def W_def F_def count_severity_nonneg)
  have sum: "P + W + F = t" using count_severity_total [of fs] by (simp add: P_def W_def F_def t_def)
  from scan_length [OF fs] have t: "t = 10 \<or> t = 11" by (auto simp: t_def)
  then have t0: "0 < t" and t11: "t \<le> 11" by auto
  from spec_score_range [OF nn sum t0 t11] obtain n where
    n: "spec_score P W t = of_int n / 10" "0 \<le> n" "n \<le> 1000" "n = 1000 \<longleftrightarrow> W = 0 \<and> F = 0"
    by blast
  have "score resp = Some (fl (spec_score P W t))"
    using scan_score [OF fs, of env u] by (simp only: resp P_def W_def t_def)
  then have sc: "score resp = Some (fl (of_int n / 10))" by (simp only: n(1))
  have wf: "warnings resp = W" "failures resp = F" "total_checks resp = t"
    by (simp_all add: resp build_response_def Let_def W_def F_def t_def)
  from fl_decimal_range [OF n(2) n(3)] n(4) sc
  show "\<exists>s. score resp = Some s \<and> 0 \<le> s \<and> s \<le> 100
              \<and> (s = 100 \<longleftrightarrow> warnings resp = 0 \<and> failures resp = 0)"
    by (simp add: wf)
  show "total_checks resp = 10 \<or> total_checks resp = 11" using t by (simp add: wf)
qed

theorem scan_score_in_range_witness:
  "\<exists>resp db'. scan_url default_settings (sample_scan_env ok_response doc_click_here) Map.empty
                 ''https://example.com'' = (Inr resp, db')
     \<and> (\<exists>s. score resp = Some s \<and> 0 \<le> s \<and> s \<le> 100
              \<and> (s = 100 \<longleftrightarrow> warnings resp = 0 \<and> failures resp = 0))
     \<and> (total_checks resp = 10 \<or> total_checks resp = 11)"
proof -
  have "fetch default_settings (http_get (sample_scan_env ok_response doc_click_here)
          ''https://example.com'') = Inr ''<html></html>''"
    by (simp add: sample_scan_env_def fetch_ok_response)
  from scan_url_completes [where db = Map.empty, OF refl this]
  obtain resp db' where s: "scan_url default_settings (sample_scan_env ok_response doc_click_here)
      Map.empty ''https://example.com'' = (Inr resp, db')" by blast
  from scan_score_in_range [of "sample_scan_env ok_response doc_click_here" "''https://example.com''"
      default_settings Map.empty resp db'] s
  show ?thesis by blast
qed

end
